theory Spec2Isabelle
  imports Complex_Main
begin

section \<open>JavaScript values\<close>

text \<open>
  The values \<open>server.js\<close> handles are those of \<open>JSON.parse\<close> (request bodies, backend
  replies), \<open>undefined\<close> for an absent property, and the built-in functions a plain
  object inherits from \<open>Object.prototype\<close>. A number is the value of a double:
  a rational, or an infinity (\<open>JSON.parse('1e999')\<close>); \<open>0\<close> and \<open>-0\<close> are both
  \<open>JNum 0\<close>, and \<open>NaN\<close> is never the result of \<open>JSON.parse\<close>. An object is the list
  of its own properties; a lookup takes the first entry of a name.
\<close>

datatype js =
    JUndefined
  | JNull
  | JBool bool
  | JNum rat
  | JInf bool
  | JStr string
  | JArr "js list"
  | JObj "(string \<times> js) list"
  | JFun string

text \<open>\<open>ToBoolean\<close>: what \<open>||\<close>, \<open>!!\<close> and \<open>if\<close> test.\<close>

fun truthy :: "js \<Rightarrow> bool" where
  "truthy JUndefined = False"
| "truthy JNull = False"
| "truthy (JBool b) = b"
| "truthy (JNum n) = (n \<noteq> 0)"
| "truthy (JInf _) = True"
| "truthy (JStr s) = (s \<noteq> [])"
| "truthy (JArr _) = True"
| "truthy (JObj _) = True"
| "truthy (JFun _) = True"

text \<open>\<open>a || b\<close>\<close>

definition js_or :: "js \<Rightarrow> js \<Rightarrow> js" where
  "js_or a b = (if truthy a then a else b)"

text \<open>
  \<open>v.name\<close> for the property names the handlers read (\<open>model\<close>, \<open>messages\<close>,
  \<open>temperature\<close>, \<open>max_tokens\<close>, \<open>stream\<close>, \<open>choices\<close>, \<open>usage\<close>, \<open>index\<close>,
  \<open>message\<close>, \<open>role\<close>, \<open>content\<close>, \<open>finish_reason\<close>, \<open>detail\<close>, \<open>error\<close>,
  \<open>type\<close>, \<open>code\<close>): none of them is inherited from a built-in prototype, so the
  result is the own property of an object and \<open>undefined\<close> for every other value.
  \<open>get\<close> is the optional read \<open>v?.name\<close>, which gives \<open>undefined\<close> on \<open>undefined\<close>
  and \<open>null\<close>; the plain read \<open>v.name\<close> throws a \<open>TypeError\<close> there, and every
  place of the handlers that reads plainly tests \<open>nullish\<close> first.
\<close>

fun get :: "js \<Rightarrow> string \<Rightarrow> js" where
  "get (JObj ps) k = (case map_of ps k of Some v \<Rightarrow> v | None \<Rightarrow> JUndefined)"
| "get _ k = JUndefined"

fun nullish :: "js \<Rightarrow> bool" where
  "nullish JUndefined = True"
| "nullish JNull = True"
| "nullish _ = False"

text \<open>The message of the \<open>TypeError\<close> that the plain read \<open>v.name\<close> throws on a
  nullish \<open>v\<close>, in the wording of V8.\<close>

definition nullish_text :: "js \<Rightarrow> string" where
  "nullish_text v = (if v = JNull then ''null'' else ''undefined'')"

definition cannot_read :: "js \<Rightarrow> string \<Rightarrow> string" where
  "cannot_read v name =
     ''Cannot read properties of '' @ nullish_text v @ '' (reading ''
       @ [CHR 0x27] @ name @ [CHR 0x27] @ '')''"

text \<open>Decimal text of a natural number, as \<open>`${n}`\<close> prints an integer.\<close>

fun decimal :: "nat \<Rightarrow> string" where
  "decimal n = (if n < 10 then [''0123456789'' ! n]
                else decimal (n div 10) @ [''0123456789'' ! (n mod 10)])"

declare decimal.simps [simp del]

subsection \<open>Property keys\<close>

text \<open>
  \<open>MODEL_MAPPING[model]\<close> first turns \<open>model\<close> into a property key with \<open>ToString\<close>.
  \<^item> \<open>Key s\<close>: the key is the string \<open>s\<close>.
  \<^item> \<open>Other\<close>: the key is a text that names no property of the table and none of
    \<open>Object.prototype\<close>: the text of a number (it starts with a digit, \<open>-\<close>, \<open>I\<close> or
    \<open>N\<close>) or a joined array holding one.
  \<^item> \<open>Throws\<close>: \<open>ToString\<close> raises a \<open>TypeError\<close>: an object whose own \<open>toString\<close>
    property (from JSON, so not callable) hides the inherited one cannot be converted
    to a primitive value.
  An array is joined with commas, \<open>null\<close> and \<open>undefined\<close> elements giving the empty
  text.
\<close>

datatype key = Key string | Other | Throws

fun join :: "string list \<Rightarrow> string" where
  "join [] = []"
| "join [s] = s"
| "join (s # t # ss) = s @ '','' @ join (t # ss)"

fun key_text :: "key \<Rightarrow> string" where
  "key_text (Key s) = s"
| "key_text _ = []"

fun to_key :: "js \<Rightarrow> key"
  and element_key :: "js \<Rightarrow> key"
  and element_keys :: "js list \<Rightarrow> key list" where
  "to_key JUndefined = Key ''undefined''"
| "to_key JNull = Key ''null''"
| "to_key (JBool b) = Key (if b then ''true'' else ''false'')"
| "to_key (JNum n) = Other"
| "to_key (JInf p) = Other"
| "to_key (JStr s) = Key s"
| "to_key (JArr xs) =
     (let ks = element_keys xs in
      if Throws \<in> set ks then Throws
      else if Other \<in> set ks then Other
      else Key (join (map key_text ks)))"
| "to_key (JObj ps) =
     (if map_of ps ''toString'' = None then Key ''[object Object]'' else Throws)"
| "to_key (JFun f) = Other"
| "element_key JUndefined = Key []"
| "element_key JNull = Key []"
| "element_key (JBool b) = to_key (JBool b)"
| "element_key (JNum n) = to_key (JNum n)"
| "element_key (JInf p) = to_key (JInf p)"
| "element_key (JStr s) = to_key (JStr s)"
| "element_key (JArr xs) = to_key (JArr xs)"
| "element_key (JObj ps) = to_key (JObj ps)"
| "element_key (JFun f) = to_key (JFun f)"
| "element_keys [] = []"
| "element_keys (x # xs) = element_key x # element_keys xs"

section \<open>Configuration and the model table\<close>

text \<open>
  \<open>NIM_API_BASE\<close> is \<open>process.env.NIM_API_BASE || 'https://integrate.api.nvidia.com/v1'\<close>,
  a string; \<open>NIM_API_KEY\<close> is \<open>process.env.NIM_API_KEY\<close>, a string or \<open>undefined\<close>.
\<close>

record config =
  NIM_API_BASE :: string
  NIM_API_KEY :: "string option"

definition MODEL_MAPPING :: "(string \<times> string) list" where
  "MODEL_MAPPING =
    [(''gpt-3.5-turbo'', ''nvidia/llama-3.1-nemotron-ultra-253b-v1''),
     (''gpt-4'', ''qwen/qwen3-coder-480b-a35b-instruct''),
     (''gpt-4-turbo'', ''moonshotai/kimi-k2.5''),
     (''gpt-4o'', ''deepseek-ai/deepseek-v3.1''),
     (''gpt-4o-mini'', ''deepseek-ai/deepseek-v3.2''),
     (''o1'', ''deepseek-ai/deepseek-v3.1-terminus''),
     (''claude-3-opus'', ''openai/gpt-oss-120b''),
     (''claude-3-sonnet'', ''openai/gpt-oss-20b''),
     (''claude-3-haiku'', ''qwen/qwen3-235b-a22b''),
     (''gemini-pro'', ''qwen/qwen3-next-80b-a3b-thinking'')]"

text \<open>
  \<open>MODEL_MAPPING\<close> is an object literal, so its prototype is \<open>Object.prototype\<close> and a
  lookup that misses the ten own properties goes on there: eleven built-in functions,
  and the accessor \<open>__proto__\<close>, which gives \<open>Object.prototype\<close> itself, an object with
  no enumerable own property.
\<close>

definition Object_prototype :: "string list" where
  "Object_prototype =
    [''constructor'', ''__defineGetter__'', ''__defineSetter__'', ''hasOwnProperty'',
     ''__lookupGetter__'', ''__lookupSetter__'', ''isPrototypeOf'',
     ''propertyIsEnumerable'', ''toString'', ''valueOf'', ''toLocaleString'']"

definition inherited :: "string \<Rightarrow> js" where
  "inherited k =
     (if k \<in> set Object_prototype then JFun k
      else if k = ''__proto__'' then JObj []
      else JUndefined)"

text \<open>\<open>MODEL_MAPPING[k]\<close> for a string \<open>k\<close>\<close>

definition mapping_get :: "string \<Rightarrow> js" where
  "mapping_get k = (case map_of MODEL_MAPPING k of Some v \<Rightarrow> JStr v | None \<Rightarrow> inherited k)"

text \<open>
  Line 63: \<open>const nimModel = MODEL_MAPPING[model] || MODEL_MAPPING['gpt-4o']\<close>;
  \<open>None\<close> when the conversion of \<open>model\<close> to a key throws.
\<close>

definition nimModel :: "js \<Rightarrow> js option" where
  "nimModel model =
     (case to_key model of
        Throws \<Rightarrow> None
      | Other \<Rightarrow> Some (js_or JUndefined (mapping_get ''gpt-4o''))
      | Key k \<Rightarrow> Some (js_or (mapping_get k) (mapping_get ''gpt-4o'')))"

section \<open>The backend call\<close>

text \<open>
  What \<open>axios.post\<close> meets. The backend either answers with an HTTP reply or cannot be
  reached (\<open>Unreachable\<close> carries the \<open>message\<close> of the error axios raises). A reply
  has its status code and text, and its body in the two forms axios hands it on:
  \<open>reply_data\<close> is \<open>response.data\<close> under \<open>responseType: 'json'\<close> (the parsed
  body, or the raw text when it does not parse), \<open>reply_events\<close> are the events of
  the readable stream that is \<open>response.data\<close> under \<open>responseType: 'stream'\<close>.
  \<open>reply_cyclic\<close> says whether the object graph of that stream object has a cycle
  (Node links a response and its request to each other), which is what
  \<open>JSON.stringify\<close> fails on.
\<close>

datatype event = Chunk string | End | Error

record reply =
  reply_status :: nat
  reply_statusText :: string
  reply_data :: js
  reply_events :: "event list"
  reply_cyclic :: bool

datatype backend = Replied reply | Unreachable string

datatype axios_data = Parsed js | Readable "event list" bool

record axios_response =
  ar_status :: nat
  ar_statusText :: string
  ar_data :: axios_data

text \<open>
  What the \<open>try\<close> block can throw: an error of axios, with its \<open>message\<close>,
  \<open>config.url\<close> and, when the backend answered, \<open>response\<close>; or a \<open>TypeError\<close> of
  the engine with its \<open>message\<close> (the wording is V8's; the handler only tests that
  it is not empty).
\<close>

datatype thrown = AxiosError string string "axios_response option" | TypeError string

record outbound =
  ob_url :: string
  ob_body :: js
  ob_headers :: "(string \<times> string) list"
  ob_responseType :: string

text \<open>
  \<open>axios.post(url, body, {headers, responseType})\<close>: resolves with the reply when its
  status is 2xx (the default \<open>validateStatus\<close>), rejects otherwise.
\<close>

definition axios_post :: "outbound \<Rightarrow> backend \<Rightarrow> thrown + reply" where
  "axios_post call b =
     (case b of
        Unreachable msg \<Rightarrow> Inl (AxiosError msg (ob_url call) None)
      | Replied r \<Rightarrow>
          if 200 \<le> reply_status r \<and> reply_status r < 300 then Inr r
          else Inl (AxiosError
                 (''Request failed with status code '' @ decimal (reply_status r))
                 (ob_url call)
                 (Some \<lparr>ar_status = reply_status r,
                        ar_statusText = reply_statusText r,
                        ar_data = (if ob_responseType call = ''stream''
                                   then Readable (reply_events r) (reply_cyclic r)
                                   else Parsed (reply_data r))\<rparr>)))"

section \<open>Responses and the console\<close>

text \<open>
  The body of a response as the handler hands it over: a JSON value (\<open>res.json\<close>),
  the chunks written to a piped response and whether it has been ended, the error page
  of Express's own error handler, or nothing. (On the wire Express leaves the body out
  for a \<open>HEAD\<close> request and for the statuses 204 and 304.)
\<close>

datatype payload = Json js | Piped "string list" bool | Page | Empty

record response =
  res_status :: nat
  res_headers :: "(string \<times> string) list"
  res_body :: payload

text \<open>
  One argument of a \<open>console\<close> call, or one piece of a template literal: a string,
  a value as the console prints it, the text \<open>JSON.stringify(v, null, 2)\<close> of a JSON
  value, the same of a stream object without a cycle, or an error, which the console
  prints with its stack.
\<close>

datatype logged = Text string | Val js | JsonText js | StreamText | ErrorObject

type_synonym line = "logged list"

text \<open>What handling one request does: the backend calls, the console lines, the response.\<close>

record result =
  calls :: "outbound list"
  logs :: "line list"
  sent :: "response option"

section \<open>POST /v1/chat/completions\<close>

text \<open>Lines 68 to 74: the body of the backend call.\<close>

definition nimRequest :: "js \<Rightarrow> js \<Rightarrow> js" where
  "nimRequest nim body =
     JObj [(''model'', nim),
           (''messages'', get body ''messages''),
           (''temperature'', js_or (get body ''temperature'') (JNum (7 / 10))),
           (''max_tokens'', js_or (get body ''max_tokens'') (JNum 2048)),
           (''stream'', js_or (get body ''stream'') (JBool False))]"

text \<open>\<open>`Bearer ${NIM_API_KEY}`\<close>: an unset key prints as \<open>undefined\<close>.\<close>

definition bearer :: "config \<Rightarrow> string" where
  "bearer cfg =
     ''Bearer '' @ (case NIM_API_KEY cfg of None \<Rightarrow> ''undefined'' | Some k \<Rightarrow> k)"

text \<open>Lines 77 to 83: the one call of \<open>axios.post\<close>.\<close>

definition nimCall :: "config \<Rightarrow> js \<Rightarrow> js \<Rightarrow> outbound" where
  "nimCall cfg nim body =
     \<lparr>ob_url = NIM_API_BASE cfg @ ''/chat/completions'',
      ob_body = nimRequest nim body,
      ob_headers = [(''Authorization'', bearer cfg),
                    (''Content-Type'', ''application/json'')],
      ob_responseType = (if truthy (get body ''stream'') then ''stream'' else ''json'')\<rparr>"

text \<open>
  Lines 87 to 96: \<open>response.data.pipe(res)\<close> writes every chunk to the response as
  it arrives and ends the response when the backend stream ends; on an error of the
  backend stream the listener of line 93 logs it and ends the response. A stream that
  has ended or failed emits nothing more; one that does neither leaves the response
  open.
\<close>

fun relay :: "event list \<Rightarrow> string list \<times> bool" where
  "relay [] = ([], False)"
| "relay (Chunk c # es) = (case relay es of (cs, ended) \<Rightarrow> (c # cs, ended))"
| "relay (End # es) = ([], True)"
| "relay (Error # es) = ([], True)"

fun relay_log :: "event list \<Rightarrow> line list" where
  "relay_log [] = []"
| "relay_log (Chunk c # es) = relay_log es"
| "relay_log (End # es) = []"
| "relay_log (Error # es) = [[Text ''Stream error:'', ErrorObject]]"

definition streamed :: "event list \<Rightarrow> response" where
  "streamed es =
     \<lparr>res_status = 200,
      res_headers = [(''Content-Type'', ''text/event-stream''),
                     (''Cache-Control'', ''no-cache''),
                     (''Connection'', ''keep-alive'')],
      res_body = (case relay es of (cs, ended) \<Rightarrow> Piped cs ended)\<rparr>"

text \<open>Lines 104 to 111: the callback of \<open>choices.map\<close>, for a choice that is not nullish.\<close>

definition choice_out :: "js \<Rightarrow> js" where
  "choice_out choice =
     JObj [(''index'', get choice ''index''),
           (''message'',
              JObj [(''role'', js_or (get (get choice ''message'') ''role'') (JStr ''assistant'')),
                    (''content'', js_or (get (get choice ''message'') ''content'') (JStr ''''))]),
           (''finish_reason'', js_or (get choice ''finish_reason'') (JStr ''stop''))]"

definition zero_usage :: js where
  "zero_usage =
     JObj [(''prompt_tokens'', JNum 0), (''completion_tokens'', JNum 0), (''total_tokens'', JNum 0)]"

text \<open>
  Lines 99 to 117, \<open>openaiResponse\<close>. \<open>now\<close> is \<open>Date.now()\<close>, read as one instant.
  \<open>response.data.choices\<close> throws on a nullish \<open>data\<close>; \<open>.map\<close> exists on arrays
  only; the callback throws at the first nullish choice, reading \<open>choice.index\<close>.
\<close>

fun first_nullish :: "js list \<Rightarrow> js option" where
  "first_nullish [] = None"
| "first_nullish (c # cs) = (if nullish c then Some c else first_nullish cs)"

definition openaiResponse :: "nat \<Rightarrow> js \<Rightarrow> js \<Rightarrow> thrown + js" where
  "openaiResponse now model data =
     (if nullish data
      then Inl (TypeError (cannot_read data ''choices''))
      else case get data ''choices'' of
        JArr cs \<Rightarrow>
          (case first_nullish cs of
             Some c \<Rightarrow> Inl (TypeError (cannot_read c ''index''))
           | None \<Rightarrow>
               Inr (JObj [(''id'', JStr (''chatcmpl-'' @ decimal now)),
                          (''object'', JStr ''chat.completion''),
                          (''created'', JNum (of_nat (now div 1000))),
                          (''model'', model),
                          (''choices'', JArr (map choice_out cs)),
                          (''usage'', js_or (get data ''usage'') zero_usage)]))
      | JUndefined \<Rightarrow> Inl (TypeError (cannot_read JUndefined ''map''))
      | JNull \<Rightarrow> Inl (TypeError (cannot_read JNull ''map''))
      | _ \<Rightarrow> Inl (TypeError ''response.data.choices.map is not a function''))"

text \<open>
  Lines 85 to 120, after the call has resolved with \<open>response\<close>: the lines logged,
  and the error thrown or the response written.
\<close>

definition respond :: "nat \<Rightarrow> js \<Rightarrow> reply \<Rightarrow> line list \<times> (thrown + response)" where
  "respond now body r =
     (if truthy (get body ''stream'')
      then (relay_log (reply_events r), Inr (streamed (reply_events r)))
      else (case openaiResponse now (get body ''model'') (reply_data r) of
              Inl e \<Rightarrow> ([], Inl e)
            | Inr v \<Rightarrow> ([], Inr \<lparr>res_status = 200, res_headers = [], res_body = Json v\<rparr>)))"

text \<open>
  Lines 59 to 120, the \<open>try\<close> block: the calls made, the lines logged, and the error
  thrown or the response written. Destructuring a nullish \<open>req.body\<close> throws, and so
  does the table lookup when \<open>model\<close> has no key.
\<close>

definition try_block ::
  "config \<Rightarrow> nat \<Rightarrow> js \<Rightarrow> backend \<Rightarrow> outbound list \<times> line list \<times> (thrown + response)" where
  "try_block cfg now body b =
     (if nullish body
      then ([], [], Inl (TypeError
             (''Cannot destructure property 'model' of 'req.body' as it is ''
                @ nullish_text body @ ''.'')))
      else (case nimModel (get body ''model'') of
         None \<Rightarrow> ([], [], Inl (TypeError ''Cannot convert object to primitive value''))
       | Some nim \<Rightarrow>
          (let call = nimCall cfg nim body;
               said = [[Text ''Request: '', Val (get body ''model''), Text '' -> '', Val nim]]
           in (case axios_post call b of
                 Inl e \<Rightarrow> ([call], said, Inl e)
               | Inr r \<Rightarrow> (case respond now body r of (ls, out) \<Rightarrow> ([call], said @ ls, out))))))"

subsection \<open>The catch block\<close>

fun error_message :: "thrown \<Rightarrow> string" where
  "error_message (AxiosError m u r) = m"
| "error_message (TypeError m) = m"

fun error_response :: "thrown \<Rightarrow> axios_response option" where
  "error_response (AxiosError m u r) = r"
| "error_response (TypeError m) = None"

text \<open>\<open>error.config?.url\<close>\<close>

fun error_url :: "thrown \<Rightarrow> js" where
  "error_url (AxiosError m u r) = JStr u"
| "error_url (TypeError m) = JUndefined"

text \<open>\<open>error.response?.status\<close> and \<open>error.response?.statusText\<close>\<close>

definition error_status :: "thrown \<Rightarrow> js" where
  "error_status e =
     (case error_response e of None \<Rightarrow> JUndefined | Some r \<Rightarrow> JNum (of_nat (ar_status r)))"

definition error_statusText :: "thrown \<Rightarrow> js" where
  "error_statusText e =
     (case error_response e of None \<Rightarrow> JUndefined | Some r \<Rightarrow> JStr (ar_statusText r))"

text \<open>\<open>error.response?.data?.detail\<close>: a stream object has no such property.\<close>

definition error_detail :: "thrown \<Rightarrow> js" where
  "error_detail e =
     (case error_response e of
        None \<Rightarrow> JUndefined
      | Some r \<Rightarrow> (case ar_data r of Parsed v \<Rightarrow> get v ''detail'' | Readable es c \<Rightarrow> JUndefined))"

text \<open>
  Line 127, \<open>JSON.stringify(error.response?.data, null, 2)\<close>: \<open>None\<close> when it throws,
  which it does on an object graph with a cycle.
\<close>

definition error_data_text :: "thrown \<Rightarrow> logged option" where
  "error_data_text e =
     (case error_response e of
        None \<Rightarrow> Some (JsonText JUndefined)
      | Some r \<Rightarrow> (case ar_data r of
                     Parsed v \<Rightarrow> Some (JsonText v)
                   | Readable es c \<Rightarrow> (if c then None else Some StreamText)))"

text \<open>\<open>!!NIM_API_KEY\<close> and \<open>NIM_API_KEY?.substring(0, 20) + '...'\<close>\<close>

definition api_key_set :: "config \<Rightarrow> bool" where
  "api_key_set cfg = (case NIM_API_KEY cfg of None \<Rightarrow> False | Some k \<Rightarrow> k \<noteq> [])"

definition api_key_shown :: "config \<Rightarrow> string" where
  "api_key_shown cfg =
     (case NIM_API_KEY cfg of None \<Rightarrow> ''undefined'' | Some k \<Rightarrow> take 20 k) @ ''...''"

text \<open>\<open>error.response?.status || 500\<close>\<close>

definition status_or_500 :: "thrown \<Rightarrow> nat" where
  "status_or_500 e =
     (case error_response e of
        None \<Rightarrow> 500
      | Some r \<Rightarrow> (if ar_status r = 0 then 500 else ar_status r))"

text \<open>Lines 135 to 141.\<close>

definition error_reply :: "thrown \<Rightarrow> response" where
  "error_reply e =
     \<lparr>res_status = status_or_500 e,
      res_headers = [],
      res_body = Json (JObj [(''error'',
        JObj [(''message'', js_or (js_or (error_detail e) (JStr (error_message e)))
                                  (JStr ''Internal server error'')),
              (''type'', JStr ''invalid_request_error''),
              (''code'', JNum (of_nat (status_or_500 e)))])])\<rparr>"

text \<open>
  Lines 122 to 142. When line 127 throws, the three lines before it have been logged,
  nothing is written to the response, and the promise of the handler is rejected.
\<close>

definition catch_block :: "config \<Rightarrow> js \<Rightarrow> thrown \<Rightarrow> line list \<times> response option" where
  "catch_block cfg body e =
     (let head = [[Text ''=== ERROR DETAILS ===''],
                  [Text ''Status:'', Val (error_status e)],
                  [Text ''Status Text:'', Val (error_statusText e)]]
      in case error_data_text e of
           None \<Rightarrow> (head, None)
         | Some t \<Rightarrow>
            (head @
             [[Text ''Error Data:'', t],
              [Text ''Request URL:'', Val (error_url e)],
              [Text ''Model Requested:'', Val (get body ''model'')],
              [Text ''API Key Present:'', Val (JBool (api_key_set cfg))],
              [Text ''API Key (first 20 chars):'', Text (api_key_shown cfg)],
              [Text ''API Base:'', Text (NIM_API_BASE cfg)],
              [Text ''===================='']],
             Some (error_reply e)))"

text \<open>Lines 58 to 143, the handler.\<close>

definition chat_completions :: "config \<Rightarrow> nat \<Rightarrow> js \<Rightarrow> backend \<Rightarrow> result" where
  "chat_completions cfg now body b =
     (case try_block cfg now body b of
        (cs, ls, Inr r) \<Rightarrow> \<lparr>calls = cs, logs = ls, sent = Some r\<rparr>
      | (cs, ls, Inl e) \<Rightarrow>
          (case catch_block cfg body e of
             (ls', r) \<Rightarrow> \<lparr>calls = cs, logs = ls @ ls', sent = r\<rparr>))"

section \<open>The application\<close>

text \<open>
  A request as Node hands it to the application: method, \<open>req.path\<close> (the path of
  the URL as it was sent, not decoded), and what the body parsers of lines 11 and 12
  made of the body: \<open>Accepted v\<close> with \<open>req.body = v\<close> (the empty object when there
  is no body to parse), or \<open>Refused s\<close> when a parser raised an error of status \<open>s\<close>
  (400 for JSON that does not parse, 413 over the limit).
\<close>

datatype body_result = Accepted js | Refused nat

record request =
  req_method :: string
  req_path :: string
  req_body :: body_result

text \<open>
  Express matches a route path without regard to case and with an optional trailing
  slash; \<open>app.get\<close> also serves \<open>HEAD\<close>.
\<close>

definition lower :: "char \<Rightarrow> char" where
  "lower c = (let n = (of_char c :: nat) in if 65 \<le> n \<and> n \<le> 90 then char_of (n + 32) else c)"

definition matches :: "string \<Rightarrow> string \<Rightarrow> bool" where
  "matches route p = (map lower p = route \<or> map lower p = route @ ''/'')"

definition is_get :: "request \<Rightarrow> bool" where
  "is_get req = (req_method req = ''GET'' \<or> req_method req = ''HEAD'')"

text \<open>The three routes of lines 33, 43 and 58.\<close>

definition health_route :: "request \<Rightarrow> bool" where
  "health_route req = (is_get req \<and> matches ''/health'' (req_path req))"

definition models_route :: "request \<Rightarrow> bool" where
  "models_route req = (is_get req \<and> matches ''/v1/models'' (req_path req))"

definition chat_route :: "request \<Rightarrow> bool" where
  "chat_route req = (req_method req = ''POST'' \<and> matches ''/v1/chat/completions'' (req_path req))"

text \<open>
  The route \<open>'*'\<close> of line 146 matches every path, and Express hands the matched
  path to the handler as a parameter, decoded with \<open>decodeURIComponent\<close>. That
  fails, with an error of status 400, on a \<open>%\<close> that is not followed by two
  hexadecimal digits and on escaped bytes that are not well-formed UTF-8.
  \<open>decodes pending lo hi p\<close> reads \<open>p\<close> from the left, \<open>pending\<close> being the number of
  continuation bytes still due and \<open>lo\<close> to \<open>hi\<close> the range of the next one.
\<close>

definition hex :: "char \<Rightarrow> nat option" where
  "hex c =
     (let n = (of_char c :: nat) in
      if 48 \<le> n \<and> n \<le> 57 then Some (n - 48)
      else if 65 \<le> n \<and> n \<le> 70 then Some (n - 55)
      else if 97 \<le> n \<and> n \<le> 102 then Some (n - 87)
      else None)"

definition octet :: "char \<Rightarrow> char \<Rightarrow> nat option" where
  "octet a b =
     (case hex a of
        None \<Rightarrow> None
      | Some x \<Rightarrow> (case hex b of None \<Rightarrow> None | Some y \<Rightarrow> Some (16 * x + y)))"

fun decodes :: "nat \<Rightarrow> nat \<Rightarrow> nat \<Rightarrow> string \<Rightarrow> bool" where
  "decodes pending lo hi [] = (pending = 0)"
| "decodes pending lo hi (c # cs) =
     (if c = CHR ''%'' then
        (case cs of
           a # b # rest \<Rightarrow>
             (case octet a b of
                None \<Rightarrow> False
              | Some v \<Rightarrow>
                  if pending = 0 then
                    (if v < 128 then decodes 0 0 0 rest
                     else if 194 \<le> v \<and> v \<le> 223 then decodes 1 128 191 rest
                     else if v = 224 then decodes 2 160 191 rest
                     else if 225 \<le> v \<and> v \<le> 236 then decodes 2 128 191 rest
                     else if v = 237 then decodes 2 128 159 rest
                     else if v = 238 \<or> v = 239 then decodes 2 128 191 rest
                     else if v = 240 then decodes 3 144 191 rest
                     else if 241 \<le> v \<and> v \<le> 243 then decodes 3 128 191 rest
                     else if v = 244 then decodes 3 128 143 rest
                     else False)
                  else lo \<le> v \<and> v \<le> hi \<and> decodes (pending - 1) 128 191 rest)
         | _ \<Rightarrow> False)
      else pending = 0 \<and> decodes 0 0 0 cs)"

definition decodable :: "string \<Rightarrow> bool" where
  "decodable p = decodes 0 0 0 p"

text \<open>Lines 33 to 40.\<close>

definition health :: "config \<Rightarrow> response" where
  "health cfg =
     \<lparr>res_status = 200, res_headers = [],
      res_body = Json (JObj [(''status'', JStr ''ok''),
                             (''service'', JStr ''OpenAI to NVIDIA NIM Proxy''),
                             (''api_key_set'', JBool (api_key_set cfg)),
                             (''api_base'', JStr (NIM_API_BASE cfg))])\<rparr>"

text \<open>Lines 43 to 55.\<close>

definition models :: "nat \<Rightarrow> response" where
  "models now =
     \<lparr>res_status = 200, res_headers = [],
      res_body = Json (JObj [(''object'', JStr ''list''),
        (''data'', JArr (map (\<lambda>model. JObj [(''id'', JStr model),
                                              (''object'', JStr ''model''),
                                              (''created'', JNum (of_nat now)),
                                              (''owned_by'', JStr ''nvidia-nim-proxy'')])
                            (map fst MODEL_MAPPING)))])\<rparr>"

text \<open>Lines 146 to 154.\<close>

definition catch_all :: "request \<Rightarrow> response" where
  "catch_all req =
     \<lparr>res_status = 404, res_headers = [],
      res_body = Json (JObj [(''error'',
        JObj [(''message'', JStr (''Endpoint '' @ req_path req @ '' not found'')),
              (''type'', JStr ''invalid_request_error''),
              (''code'', JNum 404)])])\<rparr>"

definition quiet :: "response \<Rightarrow> result" where
  "quiet r = \<lparr>calls = [], logs = [], sent = Some r\<rparr>"

text \<open>
  An error raised before a route handler runs (by a body parser, or by the decoding
  of the path) goes to the error handler of Express, which prints the error on the
  console (unless \<open>NODE_ENV\<close> is \<open>test\<close>) and answers with the status of the error
  and a page of its own.
\<close>

definition express_error :: "nat \<Rightarrow> result" where
  "express_error s =
     \<lparr>calls = [], logs = [[ErrorObject]],
      sent = Some \<lparr>res_status = s, res_headers = [], res_body = Page\<rparr>\<rparr>"

text \<open>
  Lines 10 to 12 and the routes in the order of their registration. \<open>cors()\<close> answers
  every \<open>OPTIONS\<close> request itself, with 204 and no body, and hands every other
  request on (the headers it adds to each response are left out).
\<close>

definition app :: "config \<Rightarrow> nat \<Rightarrow> request \<Rightarrow> backend \<Rightarrow> result" where
  "app cfg now req b =
     (if req_method req = ''OPTIONS''
      then quiet \<lparr>res_status = 204, res_headers = [(''Content-Length'', ''0'')], res_body = Empty\<rparr>
      else (case req_body req of
         Refused s \<Rightarrow> express_error s
       | Accepted body \<Rightarrow>
          if health_route req then quiet (health cfg)
          else if models_route req then quiet (models now)
          else if chat_route req then chat_completions cfg now body b
          else if decodable (req_path req) then quiet (catch_all req)
          else express_error 400))"

text \<open>
  Lines 156 to 161, the lines logged once the server listens on \<open>port\<close>; each
  starts with a check mark (U+2705, here its three bytes in UTF-8).
\<close>

definition check_mark :: string where
  "check_mark = [char_of (226 :: nat), char_of (156 :: nat), char_of (133 :: nat)]"

definition listening :: "config \<Rightarrow> string \<Rightarrow> line list" where
  "listening cfg port =
     [[Text (check_mark @ '' OpenAI to NVIDIA NIM Proxy running on port ''), Text port],
      [Text (check_mark @ '' Health check: http://localhost:''), Text port, Text ''/health''],
      [Text (check_mark @ '' API Key configured: ''), Val (JBool (api_key_set cfg))],
      [Text (check_mark @ '' API Base: ''), Text (NIM_API_BASE cfg)]]"

section \<open>Reading responses, and sample inputs\<close>

fun is_string :: "js \<Rightarrow> bool" where
  "is_string (JStr s) = True"
| "is_string _ = False"


definition ex_cfg :: config where
  "ex_cfg = \<lparr>NIM_API_BASE = ''https://integrate.api.nvidia.com/v1'',
             NIM_API_KEY = Some ''nvapi-0123456789abcdefghijklmnop''\<rparr>"

definition ex_body :: js where
  "ex_body = JObj [(''model'', JStr ''gpt-4''),
                   (''messages'', JArr [JObj [(''role'', JStr ''user''), (''content'', JStr ''Hello'')]])]"

definition ex_stream_body :: js where
  "ex_stream_body = JObj [(''model'', JStr ''gpt-4''),
                          (''messages'', JArr [JObj [(''role'', JStr ''user''), (''content'', JStr ''Hello'')]]),
                          (''stream'', JBool True)]"

text \<open>A reply whose first choice has no role and no finish reason, whose second has no
  message, and which has no usage.\<close>

definition ex_ok :: reply where
  "ex_ok = \<lparr>reply_status = 200, reply_statusText = ''OK'',
            reply_data = JObj [(''choices'',
              JArr [JObj [(''index'', JNum 0), (''message'', JObj [(''content'', JStr ''Hi'')])],
                    JObj [(''index'', JNum 1)]])],
            reply_events = [Chunk ''data: Hi'', Chunk ''data: [DONE]'', End],
            reply_cyclic = True\<rparr>"

definition ex_429 :: reply where
  "ex_429 = \<lparr>reply_status = 429, reply_statusText = ''Too Many Requests'',
             reply_data = JObj [(''detail'', JStr ''Rate limit exceeded'')],
             reply_events = [Chunk ''Rate limit exceeded'', End],
             reply_cyclic = False\<rparr>"

text \<open>A validation error as FastAPI reports it: \<open>detail\<close> is a list.\<close>

definition ex_422 :: reply where
  "ex_422 = \<lparr>reply_status = 422, reply_statusText = ''Unprocessable Entity'',
             reply_data = JObj [(''detail'', JArr [JObj [(''msg'', JStr ''field required'')]])],
             reply_events = [Chunk ''field required'', End],
             reply_cyclic = False\<rparr>"

text \<open>The answer to \<open>ex_body\<close> at the instant 1700000000123 when the backend replies \<open>ex_ok\<close>.\<close>

definition ex_ok_response :: response where
  "ex_ok_response =
     \<lparr>res_status = 200, res_headers = [],
      res_body = Json (JObj [(''id'', JStr ''chatcmpl-1700000000123''),
        (''object'', JStr ''chat.completion''),
        (''created'', JNum 1700000000),
        (''model'', JStr ''gpt-4''),
        (''choices'', JArr
           [JObj [(''index'', JNum 0),
                  (''message'', JObj [(''role'', JStr ''assistant''), (''content'', JStr ''Hi'')]),
                  (''finish_reason'', JStr ''stop'')],
            JObj [(''index'', JNum 1),
                  (''message'', JObj [(''role'', JStr ''assistant''), (''content'', JStr [])]),
                  (''finish_reason'', JStr ''stop'')]]),
        (''usage'', JObj [(''prompt_tokens'', JNum 0), (''completion_tokens'', JNum 0),
                         (''total_tokens'', JNum 0)])])\<rparr>"

text \<open>The answer when the backend replies \<open>ex_422\<close>.\<close>

definition ex_422_response :: response where
  "ex_422_response =
     \<lparr>res_status = 422, res_headers = [],
      res_body = Json (JObj [(''error'',
        JObj [(''message'', JArr [JObj [(''msg'', JStr ''field required'')]]),
              (''type'', JStr ''invalid_request_error''),
              (''code'', JNum 422)])])\<rparr>"

text \<open>A key of eight characters, and a key that shares its first twenty characters
  with that of \<open>ex_cfg\<close>.\<close>

definition ex_short_key :: config where
  "ex_short_key = \<lparr>NIM_API_BASE = ''https://integrate.api.nvidia.com/v1'',
                   NIM_API_KEY = Some ''sk-12345''\<rparr>"

definition ex_other_key :: config where
  "ex_other_key = \<lparr>NIM_API_BASE = ''https://integrate.api.nvidia.com/v1'',
                   NIM_API_KEY = Some ''nvapi-0123456789abcd-another-key''\<rparr>"

text \<open>A reply whose only choice has an empty role and \<open>null\<close> for content and
  finish reason; and a reply with a full first choice and with usage.\<close>

definition ex_blank :: reply where
  "ex_blank = \<lparr>reply_status = 200, reply_statusText = ''OK'',
               reply_data = JObj [(''choices'',
                 JArr [JObj [(''index'', JNum 0),
                             (''message'', JObj [(''role'', JStr []), (''content'', JNull)]),
                             (''finish_reason'', JNull)]])],
               reply_events = [End],
               reply_cyclic = True\<rparr>"

definition ex_full :: reply where
  "ex_full = \<lparr>reply_status = 200, reply_statusText = ''OK'',
              reply_data = JObj [(''choices'',
                JArr [JObj [(''index'', JNum 0),
                            (''message'', JObj [(''role'', JStr ''assistant''), (''content'', JStr ''Hi'')]),
                            (''finish_reason'', JStr ''length'')],
                      JObj [(''index'', JNum 1)]]),
                (''usage'', JObj [(''prompt_tokens'', JNum 3), (''completion_tokens'', JNum 1),
                                 (''total_tokens'', JNum 4)])],
              reply_events = [End],
              reply_cyclic = True\<rparr>"

definition ex_post :: request where
  "ex_post = \<lparr>req_method = ''POST'', req_path = ''/v1/chat/completions'',
              req_body = Accepted ex_body\<rparr>"

definition ex_get :: request where
  "ex_get = \<lparr>req_method = ''GET'', req_path = ''/v1/embeddings'',
             req_body = Accepted (JObj [])\<rparr>"


text \<open>A path with a malformed escape.\<close>

definition ex_bad_path :: request where
  "ex_bad_path = \<lparr>req_method = ''GET'', req_path = ''/%'', req_body = Accepted (JObj [])\<rparr>"

text \<open>A reply of status 401 that repeats the token of \<open>ex_cfg\<close>.\<close>

definition ex_echo :: reply where
  "ex_echo = \<lparr>reply_status = 401, reply_statusText = ''Unauthorized'',
              reply_data = JObj [(''detail'',
                JStr ''Unknown token nvapi-0123456789abcdefghijklmnop'')],
              reply_events = [],
              reply_cyclic = True\<rparr>"

section \<open>What the handler sends\<close>

text \<open>An error of the \<open>try\<close> block never carries the status 200: axios rejects a
  reply only when its status is not 2xx, and every other error has no response.\<close>

lemma axios_post_Inl_status: "axios_post call b = Inl e \<Longrightarrow> status_or_500 e \<noteq> 200"
  by (auto simp: axios_post_def status_or_500_def split: backend.splits if_splits)

lemma axios_post_Inr:
  "axios_post call b = Inr r \<Longrightarrow> b = Replied r \<and> 200 \<le> reply_status r \<and> reply_status r < 300"
  by (auto simp: axios_post_def split: backend.splits if_splits)

lemma openaiResponse_Inl: "openaiResponse now m d = Inl e \<Longrightarrow> status_or_500 e = 500"
  by (auto simp: openaiResponse_def status_or_500_def split: if_splits js.splits option.splits)

lemma openaiResponse_Inr:
  "openaiResponse now m d = Inr v \<Longrightarrow>
     \<exists>cs. get d ''choices'' = JArr cs \<and> first_nullish cs = None \<and>
       v = JObj [(''id'', JStr (''chatcmpl-'' @ decimal now)),
                 (''object'', JStr ''chat.completion''),
                 (''created'', JNum (of_nat (now div 1000))),
                 (''model'', m),
                 (''choices'', JArr (map choice_out cs)),
                 (''usage'', js_or (get d ''usage'') zero_usage)]"
  by (auto simp: openaiResponse_def split: if_splits js.splits option.splits)

lemma respond_Inl: "respond now body r = (ls, Inl e) \<Longrightarrow> status_or_500 e = 500"
  by (auto simp: respond_def split: if_splits sum.splits dest: openaiResponse_Inl)

lemma try_block_Inl_status:
  assumes "try_block cfg now body b = (cs, ls, Inl e)"
  shows "status_or_500 e \<noteq> 200"
  using assms
  by (auto simp: try_block_def Let_def status_or_500_def
      split: if_splits option.splits sum.splits prod.splits
      dest: axios_post_Inl_status respond_Inl)

lemma catch_block_sent: "catch_block cfg body e = (ls, Some r) \<Longrightarrow> r = error_reply e"
  by (auto simp: catch_block_def Let_def split: option.splits)

lemma error_reply_status [simp]: "res_status (error_reply e) = status_or_500 e"
  by (simp add: error_reply_def)

text \<open>A response of the handler is the error response of the \<open>catch\<close> block for what
  the \<open>try\<close> block threw, or what the \<open>try\<close> block wrote.\<close>

lemma chat_completions_sent:
  assumes "sent (chat_completions cfg now body b) = Some r"
  shows "(\<exists>e cs ls. try_block cfg now body b = (cs, ls, Inl e) \<and> r = error_reply e \<and>
            status_or_500 e \<noteq> 200) \<or>
         (\<exists>cs ls. try_block cfg now body b = (cs, ls, Inr r))"
  using assms
  by (auto simp: chat_completions_def split: prod.splits sum.splits
      dest: try_block_Inl_status catch_block_sent)

lemma try_block_Inr_json:
  assumes "try_block cfg now body b = (cs, ls, Inr r)" and "\<not> truthy (get body ''stream'')"
  shows "\<exists>rp v. b = Replied rp \<and> openaiResponse now (get body ''model'') (reply_data rp) = Inr v \<and>
           r = \<lparr>res_status = 200, res_headers = [], res_body = Json v\<rparr>"
  using assms
  by (auto simp: try_block_def Let_def respond_def
      split: if_splits option.splits sum.splits prod.splits dest: axios_post_Inr)

text \<open>The response with status 200 to a request that does not ask for a stream.\<close>

lemma translated:
  assumes "\<not> truthy (get body ''stream'')"
    and "sent (chat_completions cfg now body b) = Some r"
    and "res_status r = 200"
  shows "\<exists>rp cs. b = Replied rp \<and> get (reply_data rp) ''choices'' = JArr cs \<and>
           res_body r = Json (JObj [(''id'', JStr (''chatcmpl-'' @ decimal now)),
                 (''object'', JStr ''chat.completion''),
                 (''created'', JNum (of_nat (now div 1000))),
                 (''model'', get body ''model''),
                 (''choices'', JArr (map choice_out cs)),
                 (''usage'', js_or (get (reply_data rp) ''usage'') zero_usage)])"
proof -
  from chat_completions_sent [OF assms(2)] assms(3)
  obtain cs ls where "try_block cfg now body b = (cs, ls, Inr r)"
    by auto
  from try_block_Inr_json [OF this assms(1)]
  obtain rp v where b: "b = Replied rp"
    and v: "openaiResponse now (get body ''model'') (reply_data rp) = Inr v"
    and r: "r = \<lparr>res_status = 200, res_headers = [], res_body = Json v\<rparr>"
    by blast
  from openaiResponse_Inr [OF v] b r show ?thesis
    by auto
qed

lemma ex_ok_sent:
  "sent (chat_completions ex_cfg 1700000000123 ex_body (Replied ex_ok)) = Some ex_ok_response"
proof -
  have d: "decimal 1700000000123 = ''1700000000123''"
    by (simp add: decimal.simps)
  show ?thesis
    by (simp add: chat_completions_def try_block_def nimModel_def mapping_get_def
      MODEL_MAPPING_def js_or_def nimCall_def nimRequest_def axios_post_def
      respond_def openaiResponse_def choice_out_def zero_usage_def Let_def d
      ex_cfg_def ex_body_def ex_ok_def ex_ok_response_def)
qed

section \<open>The model name sent to the backend\<close>

lemma mapping_get_default: "mapping_get ''gpt-4o'' = JStr ''deepseek-ai/deepseek-v3.1''"
  by (simp add: mapping_get_def MODEL_MAPPING_def)

text \<open>A name that is a key of the table is replaced by its entry.\<close>

lemma nimModel_recognized:
  assumes "map_of MODEL_MAPPING s = Some v"
  shows "nimModel (JStr s) = Some (JStr v)"
proof -
  have "v \<noteq> []"
    using assms by (auto simp: MODEL_MAPPING_def split: if_splits)
  then show ?thesis
    using assms by (simp add: nimModel_def mapping_get_def js_or_def)
qed

text \<open>A name that is neither a key of the table nor a property of
  \<open>Object.prototype\<close>, and an absent name, give the entry of \<open>gpt-4o\<close>.\<close>

lemma nimModel_unrecognized:
  assumes "map_of MODEL_MAPPING s = None"
    and "s \<notin> set Object_prototype" and "s \<noteq> ''__proto__''"
  shows "nimModel (JStr s) = Some (JStr ''deepseek-ai/deepseek-v3.1'')"
  using assms
  by (simp add: nimModel_def mapping_get_def js_or_def inherited_def MODEL_MAPPING_def)

lemma nimModel_absent: "nimModel JUndefined = Some (JStr ''deepseek-ai/deepseek-v3.1'')"
  by (simp add: nimModel_def mapping_get_def js_or_def inherited_def MODEL_MAPPING_def
      Object_prototype_def)

text \<open>
  C1. The claim: a model name that is no key of the table is sent to the backend as
  the entry of \<open>gpt-4o\<close>. The code at the name \<open>constructor\<close>, which is no key of
  the table: the lookup finds the function inherited from \<open>Object.prototype\<close>, which
  is truthy, and the request built for the backend carries that function as its model
  and not \<open>deepseek-ai/deepseek-v3.1\<close>.
\<close>

theorem C1_inherited_name:
  "map_of MODEL_MAPPING ''constructor'' = None \<and>
   map ob_body (calls (chat_completions cfg now
       (JObj [(''model'', JStr ''constructor''), (''messages'', JArr [])]) b))
   = [JObj [(''model'', JFun ''constructor''), (''messages'', JArr []),
            (''temperature'', JNum (7 / 10)), (''max_tokens'', JNum 2048),
            (''stream'', JBool False)]]"
  by (simp add: chat_completions_def try_block_def nimModel_def mapping_get_def inherited_def
      MODEL_MAPPING_def Object_prototype_def js_or_def nimCall_def nimRequest_def axios_post_def
      respond_def Let_def split: backend.splits sum.splits prod.splits)

section \<open>The defaults of the backend request\<close>

text \<open>What \<open>||\<close> does at lines 71 to 73: a truthy value is kept, an absent one is
  replaced by the default.\<close>

lemma nimRequest_truthy:
  assumes "k \<in> {''temperature'', ''max_tokens'', ''stream''}" and "truthy (get body k)"
  shows "get (nimRequest nim body) k = get body k"
  using assms by (auto simp: nimRequest_def js_or_def)

lemma nimRequest_absent:
  assumes "get body ''temperature'' = JUndefined"
    and "get body ''max_tokens'' = JUndefined" and "get body ''stream'' = JUndefined"
  shows "get (nimRequest nim body) ''temperature'' = JNum (7 / 10)"
    and "get (nimRequest nim body) ''max_tokens'' = JNum 2048"
    and "get (nimRequest nim body) ''stream'' = JBool False"
  using assms by (simp_all add: nimRequest_def js_or_def)

text \<open>
  C3. The claim: a temperature that is present is carried into the backend request
  unchanged. The code at a request with \<open>temperature: 0\<close>: \<open>0 || 0.7\<close> is \<open>0.7\<close>,
  so the backend is asked for temperature 0.7.
\<close>

theorem C3_zero_temperature:
  "map ob_body (calls (chat_completions cfg now
       (JObj [(''model'', JStr ''gpt-4''), (''messages'', JArr []), (''temperature'', JNum 0)]) b))
   = [JObj [(''model'', JStr ''qwen/qwen3-coder-480b-a35b-instruct''), (''messages'', JArr []),
            (''temperature'', JNum (7 / 10)), (''max_tokens'', JNum 2048),
            (''stream'', JBool False)]]"
  by (simp add: chat_completions_def try_block_def nimModel_def mapping_get_def inherited_def
      MODEL_MAPPING_def Object_prototype_def js_or_def nimCall_def nimRequest_def axios_post_def
      respond_def Let_def split: backend.splits sum.splits prod.splits)

section \<open>The model name in the translated response\<close>

text \<open>
  C2. Whenever a request that does not ask for a stream is answered with status 200,
  the body is a JSON object whose \<open>model\<close> is the \<open>model\<close> of the request (the
  name the caller gave, not the one sent to the backend).
\<close>

theorem C2_model_round_trip:
  assumes "\<not> truthy (get body ''stream'')"
    and "sent (chat_completions cfg now body b) = Some r"
    and "res_status r = 200"
  shows "\<exists>v. res_body r = Json v \<and> get v ''model'' = get body ''model''"
  using translated [OF assms] by auto

text \<open>The request \<open>ex_body\<close> for \<open>gpt-4\<close>, which the backend saw as
  \<open>qwen/qwen3-coder-480b-a35b-instruct\<close>, is answered with the model \<open>gpt-4\<close>.\<close>

theorem C2_witness:
  "\<not> truthy (get ex_body ''stream'') \<and>
   sent (chat_completions ex_cfg 1700000000123 ex_body (Replied ex_ok)) = Some ex_ok_response \<and>
   res_status ex_ok_response = 200 \<and>
   (\<exists>v. res_body ex_ok_response = Json v \<and> get v ''model'' = JStr ''gpt-4'')"
proof -
  have n: "\<not> truthy (get ex_body ''stream'')"
    by (simp add: ex_body_def)
  have s: "res_status ex_ok_response = 200"
    by (simp add: ex_ok_response_def)
  have "get ex_body ''model'' = JStr ''gpt-4''"
    by (simp add: ex_body_def)
  with C2_model_round_trip [OF n ex_ok_sent s] n s ex_ok_sent show ?thesis
    by simp
qed

section \<open>Streaming\<close>

lemma relay_chunks:
  "fin = End \<or> fin = Error \<Longrightarrow> relay (map Chunk cs @ fin # rest) = (cs, True)"
  by (induction cs) auto

lemma truthy_get_not_nullish: "truthy (get body k) \<Longrightarrow> \<not> nullish body"
  by (cases body) simp_all

lemma nimModel_Some: "to_key m \<noteq> Throws \<Longrightarrow> \<exists>nim. nimModel m = Some nim"
  by (cases "to_key m") (simp_all add: nimModel_def)

text \<open>
  C8. A request that asks for a stream and reaches the backend (its \<open>model\<close> has a
  key), answered by the backend with a 2xx status and a stream that emits the chunks
  \<open>cs\<close> and then ends (\<open>fin = End\<close>) or fails (\<open>fin = Error\<close>): the response has
  status 200, the three headers of lines 87 to 89, exactly the chunks \<open>cs\<close> in their
  order and nothing after them, and it is ended; whatever would follow the failure is
  not relayed.
\<close>

theorem C8_stream_relay:
  assumes "truthy (get body ''stream'')"
    and "to_key (get body ''model'') \<noteq> Throws"
    and "200 \<le> reply_status rp" and "reply_status rp < 300"
    and "reply_events rp = map Chunk cs @ fin # rest"
    and "fin = End \<or> fin = Error"
  shows "sent (chat_completions cfg now body (Replied rp)) =
           Some \<lparr>res_status = 200,
                 res_headers = [(''Content-Type'', ''text/event-stream''),
                                (''Cache-Control'', ''no-cache''),
                                (''Connection'', ''keep-alive'')],
                 res_body = Piped cs True\<rparr>"
proof -
  from nimModel_Some [OF assms(2)] obtain nim where nim: "nimModel (get body ''model'') = Some nim"
    by blast
  have post: "axios_post (nimCall cfg nim body) (Replied rp) = Inr rp"
    using assms(3,4) by (simp add: axios_post_def)
  have "respond now body rp =
      (relay_log (reply_events rp), Inr (streamed (reply_events rp)))"
    using assms(1) by (simp add: respond_def)
  moreover have "streamed (reply_events rp) =
      \<lparr>res_status = 200,
       res_headers = [(''Content-Type'', ''text/event-stream''),
                      (''Cache-Control'', ''no-cache''),
                      (''Connection'', ''keep-alive'')],
       res_body = Piped cs True\<rparr>"
    using relay_chunks [OF assms(6), of cs rest] assms(5) by (simp add: streamed_def)
  ultimately show ?thesis
    using truthy_get_not_nullish [OF assms(1)] nim post
    by (simp add: chat_completions_def try_block_def Let_def)
qed

text \<open>Two chunks and a clean end; one chunk, a failure, and a chunk that is not relayed.\<close>

theorem C8_witness:
  "truthy (get ex_stream_body ''stream'') \<and>
   to_key (get ex_stream_body ''model'') \<noteq> Throws \<and>
   200 \<le> reply_status ex_ok \<and> reply_status ex_ok < 300 \<and>
   reply_events ex_ok = map Chunk [''data: Hi'', ''data: [DONE]''] @ End # [] \<and>
   sent (chat_completions ex_cfg 0 ex_stream_body (Replied ex_ok)) =
     Some \<lparr>res_status = 200,
           res_headers = [(''Content-Type'', ''text/event-stream''),
                          (''Cache-Control'', ''no-cache''),
                          (''Connection'', ''keep-alive'')],
           res_body = Piped [''data: Hi'', ''data: [DONE]''] True\<rparr> \<and>
   sent (chat_completions ex_cfg 0 ex_stream_body
          (Replied (ex_ok\<lparr>reply_events := [Chunk ''data: Hi'', Error, Chunk ''data: late'']\<rparr>))) =
     Some \<lparr>res_status = 200,
           res_headers = [(''Content-Type'', ''text/event-stream''),
                          (''Cache-Control'', ''no-cache''),
                          (''Connection'', ''keep-alive'')],
           res_body = Piped [''data: Hi''] True\<rparr>"
proof -
  have a: "truthy (get ex_stream_body ''stream'')"
    and b: "to_key (get ex_stream_body ''model'') \<noteq> Throws"
    by (simp_all add: ex_stream_body_def)
  have c: "200 \<le> reply_status ex_ok" and d: "reply_status ex_ok < 300"
    and e: "reply_events ex_ok = map Chunk [''data: Hi'', ''data: [DONE]''] @ End # []"
    by (simp_all add: ex_ok_def)
  let ?bad = "ex_ok\<lparr>reply_events := [Chunk ''data: Hi'', Error, Chunk ''data: late'']\<rparr>"
  have c': "200 \<le> reply_status ?bad" and d': "reply_status ?bad < 300"
    and e': "reply_events ?bad = map Chunk [''data: Hi''] @ Error # [Chunk ''data: late'']"
    by (simp_all add: ex_ok_def)
  have f: "End = End \<or> End = Error" and f': "Error = End \<or> Error = Error"
    by simp_all
  from C8_stream_relay [OF a b c d e f, of ex_cfg 0] C8_stream_relay [OF a b c' d' e' f', of ex_cfg 0]
    a b c d e
  show ?thesis by simp
qed

section \<open>Errors of the backend\<close>

lemma decimal_429: "decimal 429 = ''429''"
  by (simp add: decimal.simps)

lemma decimal_422: "decimal 422 = ''422''"
  by (simp add: decimal.simps)

text \<open>
  A request that does not ask for a stream and reaches the backend: a reply whose
  status is not 2xx is answered with that status and with the \<open>detail\<close> of its body
  when that is truthy, the message of axios otherwise; a backend that cannot be
  reached is answered with 500 and the message of the error. One call is made.
\<close>

lemma upstream_error:
  assumes "\<not> truthy (get body ''stream'')" and "\<not> nullish body"
    and "to_key (get body ''model'') \<noteq> Throws"
    and "reply_status rp < 200 \<or> 300 \<le> reply_status rp" and "reply_status rp \<noteq> 0"
  shows "sent (chat_completions cfg now body (Replied rp)) =
     Some \<lparr>res_status = reply_status rp, res_headers = [],
           res_body = Json (JObj [(''error'',
             JObj [(''message'',
                      js_or (js_or (get (reply_data rp) ''detail'')
                                   (JStr (''Request failed with status code '' @ decimal (reply_status rp))))
                            (JStr ''Internal server error'')),
                   (''type'', JStr ''invalid_request_error''),
                   (''code'', JNum (of_nat (reply_status rp)))])])\<rparr>"
    and "length (calls (chat_completions cfg now body (Replied rp))) = 1"
proof -
  from nimModel_Some [OF assms(3)] obtain nim where nim: "nimModel (get body ''model'') = Some nim"
    by blast
  show "sent (chat_completions cfg now body (Replied rp)) =
     Some \<lparr>res_status = reply_status rp, res_headers = [],
           res_body = Json (JObj [(''error'',
             JObj [(''message'',
                      js_or (js_or (get (reply_data rp) ''detail'')
                                   (JStr (''Request failed with status code '' @ decimal (reply_status rp))))
                            (JStr ''Internal server error'')),
                   (''type'', JStr ''invalid_request_error''),
                   (''code'', JNum (of_nat (reply_status rp)))])])\<rparr>"
    using assms nim
    by (auto simp: chat_completions_def try_block_def Let_def axios_post_def nimCall_def
        catch_block_def error_data_text_def error_reply_def status_or_500_def error_detail_def)
  show "length (calls (chat_completions cfg now body (Replied rp))) = 1"
    using assms nim
    by (auto simp: chat_completions_def try_block_def Let_def axios_post_def nimCall_def
        catch_block_def error_data_text_def)
qed

lemma transport_failure:
  assumes "\<not> nullish body" and "to_key (get body ''model'') \<noteq> Throws"
  shows "sent (chat_completions cfg now body (Unreachable msg)) =
     Some \<lparr>res_status = 500, res_headers = [],
           res_body = Json (JObj [(''error'',
             JObj [(''message'', JStr (if msg = [] then ''Internal server error'' else msg)),
                   (''type'', JStr ''invalid_request_error''),
                   (''code'', JNum 500)])])\<rparr>"
    and "length (calls (chat_completions cfg now body (Unreachable msg))) = 1"
proof -
  from nimModel_Some [OF assms(2)] obtain nim where nim: "nimModel (get body ''model'') = Some nim"
    by blast
  show "sent (chat_completions cfg now body (Unreachable msg)) =
     Some \<lparr>res_status = 500, res_headers = [],
           res_body = Json (JObj [(''error'',
             JObj [(''message'', JStr (if msg = [] then ''Internal server error'' else msg)),
                   (''type'', JStr ''invalid_request_error''),
                   (''code'', JNum 500)])])\<rparr>"
    using assms nim
    by (auto simp: chat_completions_def try_block_def Let_def axios_post_def
        catch_block_def error_data_text_def error_reply_def status_or_500_def error_detail_def
        js_or_def)
  show "length (calls (chat_completions cfg now body (Unreachable msg))) = 1"
    using assms nim
    by (auto simp: chat_completions_def try_block_def Let_def axios_post_def
        catch_block_def error_data_text_def)
qed

text \<open>The handler never calls the backend twice.\<close>

lemma calls_at_most_one: "length (calls (chat_completions cfg now body b)) \<le> 1"
  by (auto simp: chat_completions_def try_block_def Let_def
      split: prod.splits sum.splits option.splits if_splits)

text \<open>
  C5. The claim: whenever the backend answers a chat completion with a status that is
  not 2xx, the caller gets that status and a message taken from the \<open>detail\<close> of the
  backend's body. The code at a request with \<open>stream: true\<close> that the backend answers
  with 429 and the body \<open>{detail: 'Rate limit exceeded'}\<close>: axios hands the body on
  as a stream, which has no \<open>detail\<close>, so the message is the one of axios; and when
  the stream object has a cycle, line 127 throws inside the \<open>catch\<close> block and no
  response is written at all.
\<close>

theorem C5_streamed_request:
  "sent (chat_completions ex_cfg 0 ex_stream_body (Replied ex_429)) =
     Some \<lparr>res_status = 429, res_headers = [],
           res_body = Json (JObj [(''error'',
             JObj [(''message'', JStr ''Request failed with status code 429''),
                   (''type'', JStr ''invalid_request_error''),
                   (''code'', JNum 429)])])\<rparr> \<and>
   sent (chat_completions ex_cfg 0 ex_stream_body (Replied (ex_429\<lparr>reply_cyclic := True\<rparr>))) = None"
  by (simp add: chat_completions_def try_block_def nimModel_def mapping_get_def
      MODEL_MAPPING_def js_or_def nimCall_def nimRequest_def axios_post_def Let_def
      catch_block_def error_data_text_def error_reply_def status_or_500_def error_detail_def
      decimal_429 ex_cfg_def ex_stream_body_def ex_429_def)

section \<open>Choices and usage of the translated response\<close>

lemma first_nullish_None:
  "JNull \<notin> set cs \<Longrightarrow> JUndefined \<notin> set cs \<Longrightarrow> first_nullish cs = None"
proof (induction cs)
  case Nil
  then show ?case by simp
next
  case (Cons c cs)
  then have "\<not> nullish c"
    by (cases c) auto
  with Cons show ?case by simp
qed

text \<open>The response to a request that does not ask for a stream, when the backend
  replies 2xx with an array of choices none of which is \<open>null\<close>.\<close>

lemma translate_ok:
  assumes "\<not> truthy (get body ''stream'')" and "\<not> nullish body"
    and "to_key (get body ''model'') \<noteq> Throws"
    and "200 \<le> reply_status rp" and "reply_status rp < 300"
    and "get (reply_data rp) ''choices'' = JArr cs"
    and "JNull \<notin> set cs" and "JUndefined \<notin> set cs"
  shows "sent (chat_completions cfg now body (Replied rp)) =
     Some \<lparr>res_status = 200, res_headers = [],
           res_body = Json (JObj [(''id'', JStr (''chatcmpl-'' @ decimal now)),
             (''object'', JStr ''chat.completion''),
             (''created'', JNum (of_nat (now div 1000))),
             (''model'', get body ''model''),
             (''choices'', JArr (map choice_out cs)),
             (''usage'', js_or (get (reply_data rp) ''usage'') zero_usage)])\<rparr>"
proof -
  from nimModel_Some [OF assms(3)] obtain nim where nim: "nimModel (get body ''model'') = Some nim"
    by blast
  have post: "axios_post (nimCall cfg nim body) (Replied rp) = Inr rp"
    using assms(4,5) by (simp add: axios_post_def)
  have "\<not> nullish (reply_data rp)"
    using assms(6) by (cases "reply_data rp") simp_all
  then have "openaiResponse now (get body ''model'') (reply_data rp) =
      Inr (JObj [(''id'', JStr (''chatcmpl-'' @ decimal now)),
             (''object'', JStr ''chat.completion''),
             (''created'', JNum (of_nat (now div 1000))),
             (''model'', get body ''model''),
             (''choices'', JArr (map choice_out cs)),
             (''usage'', js_or (get (reply_data rp) ''usage'') zero_usage)])"
    using assms(6) first_nullish_None [OF assms(7,8)] by (simp add: openaiResponse_def)
  then show ?thesis
    using assms(1,2) nim post
    by (simp add: chat_completions_def try_block_def respond_def Let_def)
qed

text \<open>
  A choice of the backend with the role \<open>''\<close> and with \<open>null\<close> for content and
  finish reason: the response does not hold a copy of them but the role
  \<open>assistant\<close>, the empty content and the finish reason \<open>stop\<close>.
\<close>

theorem C4_counterexample:
  "get (reply_data ex_blank) ''choices'' =
     JArr [JObj [(''index'', JNum 0),
                 (''message'', JObj [(''role'', JStr []), (''content'', JNull)]),
                 (''finish_reason'', JNull)]] \<and>
   sent (chat_completions ex_cfg 0 ex_body (Replied ex_blank)) =
     Some \<lparr>res_status = 200, res_headers = [],
           res_body = Json (JObj [(''id'', JStr ''chatcmpl-0''),
             (''object'', JStr ''chat.completion''),
             (''created'', JNum 0),
             (''model'', JStr ''gpt-4''),
             (''choices'', JArr
                [JObj [(''index'', JNum 0),
                       (''message'', JObj [(''role'', JStr ''assistant''), (''content'', JStr [])]),
                       (''finish_reason'', JStr ''stop'')]]),
             (''usage'', JObj [(''prompt_tokens'', JNum 0), (''completion_tokens'', JNum 0),
                              (''total_tokens'', JNum 0)])])\<rparr>"
proof -
  have d: "decimal 0 = ''0''"
    by (simp add: decimal.simps)
  show ?thesis
    by (simp add: chat_completions_def try_block_def nimModel_def mapping_get_def
      MODEL_MAPPING_def js_or_def nimCall_def nimRequest_def axios_post_def
      respond_def openaiResponse_def choice_out_def zero_usage_def Let_def d
      ex_cfg_def ex_body_def ex_blank_def)
qed

text \<open>
  C4, as amended. A request that does not ask for a stream and reaches the backend,
  answered with a 2xx status and a body whose \<open>choices\<close> are an array with no
  \<open>null\<close> entry: the response has status 200, and its \<open>choices\<close> are an array of the
  same length whose entry at each position has exactly the \<open>index\<close> of the backend's
  choice at that position, its \<open>message.role\<close>, \<open>message.content\<close> and
  \<open>finish_reason\<close> where these are truthy, and \<open>assistant\<close>, the empty string and
  \<open>stop\<close> where they are absent or otherwise falsy; the \<open>usage\<close> of the response is
  that of the reply when truthy, and the three counters, all zero, when it is absent or
  otherwise falsy.
\<close>

theorem C4_choices_and_usage:
  assumes "\<not> truthy (get body ''stream'')" and "\<not> nullish body"
    and "to_key (get body ''model'') \<noteq> Throws"
    and "200 \<le> reply_status rp" and "reply_status rp < 300"
    and "get (reply_data rp) ''choices'' = JArr cs"
    and "JNull \<notin> set cs" and "JUndefined \<notin> set cs"
  shows "\<exists>v out.
           sent (chat_completions cfg now body (Replied rp)) =
             Some \<lparr>res_status = 200, res_headers = [], res_body = Json v\<rparr> \<and>
           get v ''choices'' = JArr out \<and>
           length out = length cs \<and>
           (\<forall>i < length cs.
              out ! i =
                JObj [(''index'', get (cs ! i) ''index''),
                      (''message'',
                         JObj [(''role'',
                                  if truthy (get (get (cs ! i) ''message'') ''role'')
                                  then get (get (cs ! i) ''message'') ''role''
                                  else JStr ''assistant''),
                               (''content'',
                                  if truthy (get (get (cs ! i) ''message'') ''content'')
                                  then get (get (cs ! i) ''message'') ''content''
                                  else JStr [])]),
                      (''finish_reason'',
                         if truthy (get (cs ! i) ''finish_reason'')
                         then get (cs ! i) ''finish_reason'' else JStr ''stop'')] \<and>
              (get (get (cs ! i) ''message'') ''role'' = JUndefined \<longrightarrow>
                 get (get (out ! i) ''message'') ''role'' = JStr ''assistant'') \<and>
              (get (get (cs ! i) ''message'') ''content'' = JUndefined \<longrightarrow>
                 get (get (out ! i) ''message'') ''content'' = JStr []) \<and>
              (get (cs ! i) ''finish_reason'' = JUndefined \<longrightarrow>
                 get (out ! i) ''finish_reason'' = JStr ''stop'')) \<and>
           get v ''usage'' =
             (if truthy (get (reply_data rp) ''usage'') then get (reply_data rp) ''usage''
              else JObj [(''prompt_tokens'', JNum 0), (''completion_tokens'', JNum 0),
                         (''total_tokens'', JNum 0)]) \<and>
           (get (reply_data rp) ''usage'' = JUndefined \<longrightarrow>
              get v ''usage'' =
                JObj [(''prompt_tokens'', JNum 0), (''completion_tokens'', JNum 0),
                      (''total_tokens'', JNum 0)])"
proof -
  let ?v = "JObj [(''id'', JStr (''chatcmpl-'' @ decimal now)),
             (''object'', JStr ''chat.completion''),
             (''created'', JNum (of_nat (now div 1000))),
             (''model'', get body ''model''),
             (''choices'', JArr (map choice_out cs)),
             (''usage'', js_or (get (reply_data rp) ''usage'') zero_usage)]"
  have s: "sent (chat_completions cfg now body (Replied rp)) =
             Some \<lparr>res_status = 200, res_headers = [], res_body = Json ?v\<rparr>"
    by (rule translate_ok [OF assms])
  have out: "get ?v ''choices'' = JArr (map choice_out cs)"
    by simp
  have each: "\<forall>i < length cs.
      map choice_out cs ! i =
                JObj [(''index'', get (cs ! i) ''index''),
                      (''message'',
                         JObj [(''role'',
                                  if truthy (get (get (cs ! i) ''message'') ''role'')
                                  then get (get (cs ! i) ''message'') ''role''
                                  else JStr ''assistant''),
                               (''content'',
                                  if truthy (get (get (cs ! i) ''message'') ''content'')
                                  then get (get (cs ! i) ''message'') ''content''
                                  else JStr [])]),
                      (''finish_reason'',
                         if truthy (get (cs ! i) ''finish_reason'')
                         then get (cs ! i) ''finish_reason'' else JStr ''stop'')] \<and>
      (get (get (cs ! i) ''message'') ''role'' = JUndefined \<longrightarrow>
         get (get (map choice_out cs ! i) ''message'') ''role'' = JStr ''assistant'') \<and>
      (get (get (cs ! i) ''message'') ''content'' = JUndefined \<longrightarrow>
         get (get (map choice_out cs ! i) ''message'') ''content'' = JStr []) \<and>
      (get (cs ! i) ''finish_reason'' = JUndefined \<longrightarrow>
         get (map choice_out cs ! i) ''finish_reason'' = JStr ''stop'')"
    by (simp add: choice_out_def js_or_def)
  have usage: "get ?v ''usage'' =
             (if truthy (get (reply_data rp) ''usage'') then get (reply_data rp) ''usage''
              else JObj [(''prompt_tokens'', JNum 0), (''completion_tokens'', JNum 0),
                         (''total_tokens'', JNum 0)])"
    by (simp add: js_or_def zero_usage_def)
  have zero: "get (reply_data rp) ''usage'' = JUndefined \<longrightarrow>
      get ?v ''usage'' = JObj [(''prompt_tokens'', JNum 0), (''completion_tokens'', JNum 0),
                              (''total_tokens'', JNum 0)]"
    by (simp add: js_or_def zero_usage_def)
  from s out each usage zero show ?thesis
    by (intro exI [of _ ?v] exI [of _ "map choice_out cs"]) simp
qed

text \<open>The reply \<open>ex_full\<close>: a first choice whose role, content and finish reason are
  copied, a second choice without message and finish reason, and a usage that is
  copied; the reply \<open>ex_ok\<close>, which has no usage.\<close>

theorem C4_witness:
  "\<not> truthy (get ex_body ''stream'') \<and> \<not> nullish ex_body \<and>
   to_key (get ex_body ''model'') \<noteq> Throws \<and>
   200 \<le> reply_status ex_full \<and> reply_status ex_full < 300 \<and>
   (\<exists>cs v out.
      get (reply_data ex_full) ''choices'' = JArr cs \<and>
      JNull \<notin> set cs \<and> JUndefined \<notin> set cs \<and> length cs = 2 \<and>
      sent (chat_completions ex_cfg 0 ex_body (Replied ex_full)) =
        Some \<lparr>res_status = 200, res_headers = [], res_body = Json v\<rparr> \<and>
      get v ''choices'' = JArr out \<and> length out = 2 \<and>
      out ! 0 = JObj [(''index'', JNum 0),
                      (''message'', JObj [(''role'', JStr ''assistant''), (''content'', JStr ''Hi'')]),
                      (''finish_reason'', JStr ''length'')] \<and>
      out ! 1 = JObj [(''index'', JNum 1),
                      (''message'', JObj [(''role'', JStr ''assistant''), (''content'', JStr [])]),
                      (''finish_reason'', JStr ''stop'')] \<and>
      get v ''usage'' = JObj [(''prompt_tokens'', JNum 3), (''completion_tokens'', JNum 1),
                              (''total_tokens'', JNum 4)]) \<and>
   (\<exists>v. sent (chat_completions ex_cfg 0 ex_body (Replied ex_ok)) =
          Some \<lparr>res_status = 200, res_headers = [], res_body = Json v\<rparr> \<and>
        get (reply_data ex_ok) ''usage'' = JUndefined \<and>
        get v ''usage'' = JObj [(''prompt_tokens'', JNum 0), (''completion_tokens'', JNum 0),
                                (''total_tokens'', JNum 0)])"
proof -
  have a: "\<not> truthy (get ex_body ''stream'')" and b: "\<not> nullish ex_body"
    and c: "to_key (get ex_body ''model'') \<noteq> Throws"
    by (simp_all add: ex_body_def)
  let ?cs = "[JObj [(''index'', JNum 0),
                    (''message'', JObj [(''role'', JStr ''assistant''), (''content'', JStr ''Hi'')]),
                    (''finish_reason'', JStr ''length'')],
              JObj [(''index'', JNum 1)]]"
  have d: "200 \<le> reply_status ex_full" and e: "reply_status ex_full < 300"
    and f: "get (reply_data ex_full) ''choices'' = JArr ?cs"
    and u: "get (reply_data ex_full) ''usage'' =
              JObj [(''prompt_tokens'', JNum 3), (''completion_tokens'', JNum 1),
                    (''total_tokens'', JNum 4)]"
    by (simp_all add: ex_full_def)
  have g: "JNull \<notin> set ?cs" and h: "JUndefined \<notin> set ?cs"
    by simp_all
  from C4_choices_and_usage [OF a b c d e f g h, of ex_cfg 0]
  obtain v out where s: "sent (chat_completions ex_cfg 0 ex_body (Replied ex_full)) =
             Some \<lparr>res_status = 200, res_headers = [], res_body = Json v\<rparr>"
    and out: "get v ''choices'' = JArr out" and len: "length out = length ?cs"
    and each: "\<forall>i < length ?cs.
              out ! i =
                JObj [(''index'', get (?cs ! i) ''index''),
                      (''message'',
                         JObj [(''role'',
                                  if truthy (get (get (?cs ! i) ''message'') ''role'')
                                  then get (get (?cs ! i) ''message'') ''role''
                                  else JStr ''assistant''),
                               (''content'',
                                  if truthy (get (get (?cs ! i) ''message'') ''content'')
                                  then get (get (?cs ! i) ''message'') ''content''
                                  else JStr [])]),
                      (''finish_reason'',
                         if truthy (get (?cs ! i) ''finish_reason'')
                         then get (?cs ! i) ''finish_reason'' else JStr ''stop'')] \<and>
              (get (get (?cs ! i) ''message'') ''role'' = JUndefined \<longrightarrow>
                 get (get (out ! i) ''message'') ''role'' = JStr ''assistant'') \<and>
              (get (get (?cs ! i) ''message'') ''content'' = JUndefined \<longrightarrow>
                 get (get (out ! i) ''message'') ''content'' = JStr []) \<and>
              (get (?cs ! i) ''finish_reason'' = JUndefined \<longrightarrow>
                 get (out ! i) ''finish_reason'' = JStr ''stop'')"
    and usage: "get v ''usage'' =
             (if truthy (get (reply_data ex_full) ''usage'') then get (reply_data ex_full) ''usage''
              else JObj [(''prompt_tokens'', JNum 0), (''completion_tokens'', JNum 0),
                         (''total_tokens'', JNum 0)])"
    by blast
  from each have o0: "out ! 0 = JObj [(''index'', JNum 0),
                      (''message'', JObj [(''role'', JStr ''assistant''), (''content'', JStr ''Hi'')]),
                      (''finish_reason'', JStr ''length'')]"
    and o1: "out ! 1 = JObj [(''index'', JNum 1),
                      (''message'', JObj [(''role'', JStr ''assistant''), (''content'', JStr [])]),
                      (''finish_reason'', JStr ''stop'')]"
    by simp_all
  from usage u have u': "get v ''usage'' = JObj [(''prompt_tokens'', JNum 3),
      (''completion_tokens'', JNum 1), (''total_tokens'', JNum 4)]"
    by simp
  have full: "\<exists>cs v out.
      get (reply_data ex_full) ''choices'' = JArr cs \<and>
      JNull \<notin> set cs \<and> JUndefined \<notin> set cs \<and> length cs = 2 \<and>
      sent (chat_completions ex_cfg 0 ex_body (Replied ex_full)) =
        Some \<lparr>res_status = 200, res_headers = [], res_body = Json v\<rparr> \<and>
      get v ''choices'' = JArr out \<and> length out = 2 \<and>
      out ! 0 = JObj [(''index'', JNum 0),
                      (''message'', JObj [(''role'', JStr ''assistant''), (''content'', JStr ''Hi'')]),
                      (''finish_reason'', JStr ''length'')] \<and>
      out ! 1 = JObj [(''index'', JNum 1),
                      (''message'', JObj [(''role'', JStr ''assistant''), (''content'', JStr [])]),
                      (''finish_reason'', JStr ''stop'')] \<and>
      get v ''usage'' = JObj [(''prompt_tokens'', JNum 3), (''completion_tokens'', JNum 1),
                              (''total_tokens'', JNum 4)]"
    using f g h s out len o0 o1 u'
    by (intro exI [of _ ?cs] exI [of _ v] exI [of _ out]) simp
  let ?ds = "[JObj [(''index'', JNum 0), (''message'', JObj [(''content'', JStr ''Hi'')])],
              JObj [(''index'', JNum 1)]]"
  have d': "200 \<le> reply_status ex_ok" and e': "reply_status ex_ok < 300"
    and f': "get (reply_data ex_ok) ''choices'' = JArr ?ds"
    and n: "get (reply_data ex_ok) ''usage'' = JUndefined"
    by (simp_all add: ex_ok_def)
  have g': "JNull \<notin> set ?ds" and h': "JUndefined \<notin> set ?ds"
    by simp_all
  from C4_choices_and_usage [OF a b c d' e' f' g' h', of ex_cfg 0] n
  have none: "\<exists>v. sent (chat_completions ex_cfg 0 ex_body (Replied ex_ok)) =
          Some \<lparr>res_status = 200, res_headers = [], res_body = Json v\<rparr> \<and>
        get (reply_data ex_ok) ''usage'' = JUndefined \<and>
        get v ''usage'' = JObj [(''prompt_tokens'', JNum 0), (''completion_tokens'', JNum 0),
                                (''total_tokens'', JNum 0)]"
    by auto
  from a b c d e full none show ?thesis
    by blast
qed

section \<open>The shape of error responses\<close>

lemma try_block_Inr_reply:
  assumes "try_block cfg now body b = (cs, ls, Inr r)"
  shows "res_status r = 200 \<and>
         (\<exists>rp. b = Replied rp \<and> 200 \<le> reply_status rp \<and> reply_status rp < 300)"
  using assms
  by (auto simp: try_block_def Let_def respond_def streamed_def
      split: if_splits option.splits sum.splits prod.splits dest: axios_post_Inr)

text \<open>A truthy \<open>error.response?.data?.detail\<close> is the \<open>detail\<close> of the body the
  backend replied with.\<close>

lemma axios_post_Inl_detail:
  "axios_post call b = Inl e \<Longrightarrow> truthy (error_detail e) \<Longrightarrow>
     \<exists>rp. b = Replied rp \<and> error_detail e = get (reply_data rp) ''detail''"
  by (auto simp: axios_post_def error_detail_def split: backend.splits if_splits)

lemma openaiResponse_Inl_detail: "openaiResponse now m d = Inl e \<Longrightarrow> error_detail e = JUndefined"
  by (auto simp: openaiResponse_def error_detail_def split: if_splits js.splits option.splits)

lemma respond_Inl_detail: "respond now body r = (ls, Inl e) \<Longrightarrow> error_detail e = JUndefined"
  by (auto simp: respond_def split: if_splits sum.splits dest: openaiResponse_Inl_detail)

lemma try_block_Inl_detail:
  assumes "try_block cfg now body b = (cs, ls, Inl e)" and "truthy (error_detail e)"
  shows "\<exists>rp. b = Replied rp \<and> error_detail e = get (reply_data rp) ''detail''"
  using assms
  by (auto simp: try_block_def Let_def error_detail_def
      split: if_splits option.splits sum.splits prod.splits
      dest: axios_post_Inl_detail respond_Inl_detail)

lemma error_reply_message:
  "\<exists>m. error_reply e =
      \<lparr>res_status = status_or_500 e, res_headers = [],
       res_body = Json (JObj [(''error'',
         JObj [(''message'', m), (''type'', JStr ''invalid_request_error''),
               (''code'', JNum (of_nat (status_or_500 e)))])])\<rparr> \<and>
      (is_string m \<or> (truthy (error_detail e) \<and> m = error_detail e))"
  by (simp add: error_reply_def js_or_def)

text \<open>Line 127 throws only on the error body of a streamed call.\<close>

lemma axios_post_Inl_None:
  "axios_post call b = Inl e \<Longrightarrow> error_data_text e = None \<Longrightarrow>
     ob_responseType call = ''stream'' \<and>
     (\<exists>rp. b = Replied rp \<and> \<not> (200 \<le> reply_status rp \<and> reply_status rp < 300) \<and>
           reply_cyclic rp)"
  by (auto simp: axios_post_def error_data_text_def split: backend.splits if_splits)

lemma error_data_text_TypeError: "error_data_text (TypeError m) = Some (JsonText JUndefined)"
  by (simp add: error_data_text_def)

lemma openaiResponse_Inl_text: "openaiResponse now m d = Inl e \<Longrightarrow> error_data_text e \<noteq> None"
  by (auto simp: openaiResponse_def error_data_text_def split: if_splits js.splits option.splits)

lemma respond_Inl_text: "respond now body r = (ls, Inl e) \<Longrightarrow> error_data_text e \<noteq> None"
  by (auto simp: respond_def split: if_splits sum.splits dest: openaiResponse_Inl_text)

lemma nimModel_Some_key: "nimModel m = Some nim \<Longrightarrow> to_key m \<noteq> Throws"
  by (auto simp: nimModel_def split: key.splits)

lemma nimCall_stream: "ob_responseType (nimCall cfg nim body) = ''stream'' \<Longrightarrow> truthy (get body ''stream'')"
  by (simp add: nimCall_def split: if_splits)

lemma try_block_Inl_None:
  assumes "try_block cfg now body b = (cs, ls, Inl e)" and "error_data_text e = None"
  shows "truthy (get body ''stream'') \<and> to_key (get body ''model'') \<noteq> Throws \<and>
         (\<exists>rp. b = Replied rp \<and> \<not> (200 \<le> reply_status rp \<and> reply_status rp < 300) \<and>
               reply_cyclic rp)"
  using assms
  by (auto simp: try_block_def Let_def error_data_text_TypeError
      split: if_splits option.splits sum.splits prod.splits
      dest: axios_post_Inl_None respond_Inl_text nimModel_Some_key nimCall_stream)

text \<open>
  Every chat completion is answered, unless line 127 throws: with status 200 when the
  backend replied 2xx, and otherwise with another status and the error object of
  lines 135 to 141.
\<close>

lemma chat_answered:
  assumes "\<not> (truthy (get body ''stream'') \<and> to_key (get body ''model'') \<noteq> Throws \<and>
             (\<exists>rp. b = Replied rp \<and> \<not> (200 \<le> reply_status rp \<and> reply_status rp < 300) \<and>
                   reply_cyclic rp))"
  shows "\<exists>r. sent (chat_completions cfg now body b) = Some r \<and>
           (res_status r = 200 \<and>
              (\<exists>rp. b = Replied rp \<and> 200 \<le> reply_status rp \<and> reply_status rp < 300) \<or>
            res_status r \<noteq> 200 \<and>
              (\<exists>m. r = \<lparr>res_status = res_status r, res_headers = [],
                         res_body = Json (JObj [(''error'',
                           JObj [(''message'', m), (''type'', JStr ''invalid_request_error''),
                                 (''code'', JNum (of_nat (res_status r)))])])\<rparr> \<and>
                    (is_string m \<or> (\<exists>rp. b = Replied rp \<and> m = get (reply_data rp) ''detail''))))"
proof -
  obtain cs ls out where t: "try_block cfg now body b = (cs, ls, out)"
    by (cases "try_block cfg now body b") auto
  show ?thesis
  proof (cases out)
    case (Inr r)
    with t have "sent (chat_completions cfg now body b) = Some r"
      by (simp add: chat_completions_def)
    with try_block_Inr_reply [of cfg now body b cs ls r] t Inr show ?thesis
      by auto
  next
    case (Inl e)
    with t try_block_Inl_None [of cfg now body b cs ls e] assms
    obtain shown where "error_data_text e = Some shown"
      by (cases "error_data_text e") auto
    with t Inl have s: "sent (chat_completions cfg now body b) = Some (error_reply e)"
      by (simp add: chat_completions_def catch_block_def Let_def)
    from t Inl have st: "status_or_500 e \<noteq> 200"
      by (auto dest: try_block_Inl_status)
    from error_reply_message [of e] obtain m where
      e: "error_reply e =
        \<lparr>res_status = status_or_500 e, res_headers = [],
         res_body = Json (JObj [(''error'',
           JObj [(''message'', m), (''type'', JStr ''invalid_request_error''),
                 (''code'', JNum (of_nat (status_or_500 e)))])])\<rparr>"
      and m: "is_string m \<or> (truthy (error_detail e) \<and> m = error_detail e)"
      by blast
    from m t Inl try_block_Inl_detail [of cfg now body b cs ls e]
    have m': "is_string m \<or> (\<exists>rp. b = Replied rp \<and> m = get (reply_data rp) ''detail'')"
      by auto
    have "res_status (error_reply e) \<noteq> 200 \<and>
          (\<exists>m. error_reply e = \<lparr>res_status = res_status (error_reply e), res_headers = [],
                         res_body = Json (JObj [(''error'',
                           JObj [(''message'', m), (''type'', JStr ''invalid_request_error''),
                                 (''code'', JNum (of_nat (res_status (error_reply e))))])])\<rparr> \<and>
                    (is_string m \<or> (\<exists>rp. b = Replied rp \<and> m = get (reply_data rp) ''detail'')))"
      using st e m' by auto
    with s show ?thesis by blast
  qed
qed

text \<open>
  Every request that reaches a route handler is answered, unless line 127 throws: with
  status 200 by the health check, by the list of models and by a chat completion that
  the backend answered 2xx, and otherwise with another status and an error object of
  the one shape.
\<close>

lemma app_answered:
  assumes "req_method req \<noteq> ''OPTIONS''" and "req_body req = Accepted body"
    and "health_route req \<or> models_route req \<or> chat_route req \<or> decodable (req_path req)"
    and "\<not> (chat_route req \<and> truthy (get body ''stream'') \<and>
             to_key (get body ''model'') \<noteq> Throws \<and>
             (\<exists>rp. b = Replied rp \<and> \<not> (200 \<le> reply_status rp \<and> reply_status rp < 300) \<and>
                   reply_cyclic rp))"
  shows "\<exists>r. sent (app cfg now req b) = Some r \<and>
           (res_status r = 200 \<and>
              (health_route req \<or> models_route req \<or>
               chat_route req \<and>
                 (\<exists>rp. b = Replied rp \<and> 200 \<le> reply_status rp \<and> reply_status rp < 300)) \<or>
            res_status r \<noteq> 200 \<and>
              (\<exists>m. r = \<lparr>res_status = res_status r, res_headers = [],
                         res_body = Json (JObj [(''error'',
                           JObj [(''message'', m), (''type'', JStr ''invalid_request_error''),
                                 (''code'', JNum (of_nat (res_status r)))])])\<rparr> \<and>
                    (is_string m \<or> (\<exists>rp. b = Replied rp \<and> m = get (reply_data rp) ''detail''))))"
proof -
  consider "health_route req" | "\<not> health_route req" "models_route req"
    | "\<not> health_route req" "\<not> models_route req" "chat_route req"
    | "\<not> health_route req" "\<not> models_route req" "\<not> chat_route req"
    by blast
  then show ?thesis
  proof cases
    case 1
    with assms(1,2) have "sent (app cfg now req b) = Some (health cfg)"
      by (simp add: app_def quiet_def)
    with 1 show ?thesis by (simp add: health_def)
  next
    case 2
    with assms(1,2) have "sent (app cfg now req b) = Some (models now)"
      by (simp add: app_def quiet_def)
    with 2 show ?thesis by (simp add: models_def)
  next
    case 3
    with assms(1,2) have "sent (app cfg now req b) = sent (chat_completions cfg now body b)"
      by (simp add: app_def)
    moreover from 3 assms(4) have "\<not> (truthy (get body ''stream'') \<and>
             to_key (get body ''model'') \<noteq> Throws \<and>
             (\<exists>rp. b = Replied rp \<and> \<not> (200 \<le> reply_status rp \<and> reply_status rp < 300) \<and>
                   reply_cyclic rp))"
      by blast
    note chat_answered [OF this, of cfg now]
    ultimately show ?thesis using 3 by auto
  next
    case 4
    with assms(1,2,3) have "sent (app cfg now req b) = Some (catch_all req)"
      by (simp add: app_def quiet_def)
    then show ?thesis by (simp add: catch_all_def)
  qed
qed

lemma ex_get_sent:
  "sent (app ex_cfg 0 ex_get (Replied ex_ok)) =
     Some \<lparr>res_status = 404, res_headers = [],
           res_body = Json (JObj [(''error'',
             JObj [(''message'', JStr ''Endpoint /v1/embeddings not found''),
                   (''type'', JStr ''invalid_request_error''),
                   (''code'', JNum 404)])])\<rparr>"
  by (simp add: app_def ex_get_def health_route_def models_route_def chat_route_def
      is_get_def matches_def lower_def decodable_def quiet_def catch_all_def)

lemma ex_422_sent: "sent (app ex_cfg 0 ex_post (Replied ex_422)) = Some ex_422_response"
  by (simp add: app_def ex_post_def health_route_def models_route_def chat_route_def
      is_get_def matches_def lower_def
      chat_completions_def try_block_def nimModel_def mapping_get_def
      MODEL_MAPPING_def js_or_def nimCall_def nimRequest_def axios_post_def Let_def
      catch_block_def error_data_text_def error_reply_def status_or_500_def error_detail_def
      decimal_422 ex_cfg_def ex_body_def ex_422_def ex_422_response_def)

lemma ex_refused_sent:
  "sent (app ex_cfg 0 ex_post (Unreachable ''connect ECONNREFUSED'')) =
     Some \<lparr>res_status = 500, res_headers = [],
           res_body = Json (JObj [(''error'',
             JObj [(''message'', JStr ''connect ECONNREFUSED''),
                   (''type'', JStr ''invalid_request_error''),
                   (''code'', JNum 500)])])\<rparr>"
  by (simp add: app_def ex_post_def health_route_def models_route_def chat_route_def
      is_get_def matches_def lower_def
      chat_completions_def try_block_def nimModel_def mapping_get_def
      MODEL_MAPPING_def js_or_def nimCall_def nimRequest_def axios_post_def Let_def
      catch_block_def error_data_text_def error_reply_def status_or_500_def error_detail_def
      ex_cfg_def ex_body_def)

lemma ex_routes:
  "\<not> health_route ex_get" "\<not> models_route ex_get" "\<not> chat_route ex_get"
  "decodable (req_path ex_get)" "req_method ex_get \<noteq> ''OPTIONS''"
  "req_body ex_get = Accepted (JObj [])"
  "\<not> health_route ex_post" "\<not> models_route ex_post" "chat_route ex_post"
  "req_method ex_post \<noteq> ''OPTIONS''" "req_body ex_post = Accepted ex_body"
  "\<not> truthy (get ex_body ''stream'')"
  by (simp_all add: ex_get_def ex_post_def ex_body_def health_route_def models_route_def
      chat_route_def is_get_def matches_def lower_def decodable_def)

text \<open>
  C10. A request that reaches a route handler (its method is not \<open>OPTIONS\<close>, the
  parsers accept its body, and it matches a route or its path decodes) is answered,
  unless line 127 throws on the error body of a streamed call. The answer has status
  200 only from the health check, from the list of models and from a chat completion
  that the backend answered 2xx; every other answer is an error response with a JSON
  body whose \<open>error.type\<close> is \<open>invalid_request_error\<close>, for whatever kind of error
  (a reply of the backend that is not 2xx, a backend that cannot be reached, an error
  thrown while translating, a request no route matches).
\<close>

theorem C10_error_type:
  assumes "req_method req \<noteq> ''OPTIONS''" and "req_body req = Accepted body"
    and "health_route req \<or> models_route req \<or> chat_route req \<or> decodable (req_path req)"
    and "\<not> (chat_route req \<and> truthy (get body ''stream'') \<and>
             to_key (get body ''model'') \<noteq> Throws \<and>
             (\<exists>rp. b = Replied rp \<and> \<not> (200 \<le> reply_status rp \<and> reply_status rp < 300) \<and>
                   reply_cyclic rp))"
  shows "\<exists>r. sent (app cfg now req b) = Some r \<and>
           (res_status r = 200 \<and>
              (health_route req \<or> models_route req \<or>
               chat_route req \<and>
                 (\<exists>rp. b = Replied rp \<and> 200 \<le> reply_status rp \<and> reply_status rp < 300)) \<or>
            res_status r \<noteq> 200 \<and>
              (\<exists>v. res_body r = Json v \<and>
                   get (get v ''error'') ''type'' = JStr ''invalid_request_error''))"
proof -
  from app_answered [OF assms, of cfg now]
  obtain r where s: "sent (app cfg now req b) = Some r"
    and c: "res_status r = 200 \<and>
              (health_route req \<or> models_route req \<or>
               chat_route req \<and>
                 (\<exists>rp. b = Replied rp \<and> 200 \<le> reply_status rp \<and> reply_status rp < 300)) \<or>
            res_status r \<noteq> 200 \<and>
              (\<exists>m. r = \<lparr>res_status = res_status r, res_headers = [],
                         res_body = Json (JObj [(''error'',
                           JObj [(''message'', m), (''type'', JStr ''invalid_request_error''),
                                 (''code'', JNum (of_nat (res_status r)))])])\<rparr> \<and>
                    (is_string m \<or> (\<exists>rp. b = Replied rp \<and> m = get (reply_data rp) ''detail'')))"
    by blast
  from c show ?thesis
  proof
    assume "res_status r = 200 \<and>
              (health_route req \<or> models_route req \<or>
               chat_route req \<and>
                 (\<exists>rp. b = Replied rp \<and> 200 \<le> reply_status rp \<and> reply_status rp < 300))"
    with s show ?thesis by blast
  next
    assume e: "res_status r \<noteq> 200 \<and>
              (\<exists>m. r = \<lparr>res_status = res_status r, res_headers = [],
                         res_body = Json (JObj [(''error'',
                           JObj [(''message'', m), (''type'', JStr ''invalid_request_error''),
                                 (''code'', JNum (of_nat (res_status r)))])])\<rparr> \<and>
                    (is_string m \<or> (\<exists>rp. b = Replied rp \<and> m = get (reply_data rp) ''detail'')))"
    then obtain m where eq: "r = \<lparr>res_status = res_status r, res_headers = [],
                         res_body = Json (JObj [(''error'',
                           JObj [(''message'', m), (''type'', JStr ''invalid_request_error''),
                                 (''code'', JNum (of_nat (res_status r)))])])\<rparr>"
      by blast
    have "res_body r = Json (JObj [(''error'',
                           JObj [(''message'', m), (''type'', JStr ''invalid_request_error''),
                                 (''code'', JNum (of_nat (res_status r)))])])"
      by (subst eq) simp
    then have "\<exists>v. res_body r = Json v \<and>
                   get (get v ''error'') ''type'' = JStr ''invalid_request_error''"
      by simp
    with s e show ?thesis by blast
  qed
qed

text \<open>The three kinds of error: \<open>GET /v1/embeddings\<close>, which no route matches; a
  backend that cannot be reached; and the backend's 422 passed on to the caller.\<close>

theorem C10_witness:
  "req_method ex_get \<noteq> ''OPTIONS'' \<and> req_body ex_get = Accepted (JObj []) \<and>
   \<not> health_route ex_get \<and> \<not> models_route ex_get \<and> \<not> chat_route ex_get \<and>
   decodable (req_path ex_get) \<and>
   (\<exists>r v. sent (app ex_cfg 0 ex_get (Replied ex_ok)) = Some r \<and> res_status r = 404 \<and>
      res_body r = Json v \<and> get (get v ''error'') ''type'' = JStr ''invalid_request_error'') \<and>
   req_method ex_post \<noteq> ''OPTIONS'' \<and> req_body ex_post = Accepted ex_body \<and>
   chat_route ex_post \<and> \<not> truthy (get ex_body ''stream'') \<and>
   (\<exists>r v. sent (app ex_cfg 0 ex_post (Unreachable ''connect ECONNREFUSED'')) = Some r \<and>
      res_status r = 500 \<and>
      res_body r = Json v \<and> get (get v ''error'') ''type'' = JStr ''invalid_request_error'') \<and>
   (\<exists>r v. sent (app ex_cfg 0 ex_post (Replied ex_422)) = Some r \<and> res_status r = 422 \<and>
      res_body r = Json v \<and> get (get v ''error'') ''type'' = JStr ''invalid_request_error'')"
proof -
  have 1: "\<exists>r v. sent (app ex_cfg 0 ex_get (Replied ex_ok)) = Some r \<and> res_status r = 404 \<and>
      res_body r = Json v \<and> get (get v ''error'') ''type'' = JStr ''invalid_request_error''"
    using C10_error_type [of ex_get "JObj []" "Replied ex_ok" ex_cfg 0] ex_routes ex_get_sent
    by auto
  have 2: "\<exists>r v. sent (app ex_cfg 0 ex_post (Unreachable ''connect ECONNREFUSED'')) = Some r \<and>
      res_status r = 500 \<and>
      res_body r = Json v \<and> get (get v ''error'') ''type'' = JStr ''invalid_request_error''"
    using C10_error_type [of ex_post ex_body "Unreachable ''connect ECONNREFUSED''" ex_cfg 0]
      ex_routes ex_refused_sent
    by auto
  have 3: "\<exists>r v. sent (app ex_cfg 0 ex_post (Replied ex_422)) = Some r \<and> res_status r = 422 \<and>
      res_body r = Json v \<and> get (get v ''error'') ''type'' = JStr ''invalid_request_error''"
    using C10_error_type [of ex_post ex_body "Replied ex_422" ex_cfg 0]
      ex_routes ex_422_sent
    by (auto simp: ex_422_response_def)
  from 1 2 3 ex_routes show ?thesis
    by blast
qed

section \<open>Errors are caught and answered\<close>




section \<open>Requests that no route matches\<close>

text \<open>A path without \<open>%\<close> decodes, and so does one whose escapes are well-formed
  UTF-8; a \<open>%\<close> without two hexadecimal digits, an overlong form and a sequence cut
  short do not.\<close>

lemma decodes_plain: "CHR ''%'' \<notin> set p \<Longrightarrow> decodes 0 0 0 p"
  by (induction p) auto

lemma decodable_plain: "CHR ''%'' \<notin> set p \<Longrightarrow> decodable p"
  by (simp add: decodable_def decodes_plain)

lemma decodable_samples:
  "decodable ''/v1/caf%C3%A9''" "decodable ''/a%20b''"
  "\<not> decodable ''/%''" "\<not> decodable ''/%zz''" "\<not> decodable ''/%C0%AF''"
  "\<not> decodable ''/%E9''" "\<not> decodable ''/%ED%A0%80''"
  by (simp_all add: decodable_def octet_def hex_def)

text \<open>A path with a malformed escape is refused by Express before line 146.\<close>

lemma ex_bad_path_sent:
  "sent (app cfg now ex_bad_path b) = Some \<lparr>res_status = 400, res_headers = [], res_body = Page\<rparr>"
  by (simp add: app_def ex_bad_path_def health_route_def models_route_def chat_route_def
      is_get_def matches_def lower_def decodable_def express_error_def)




section \<open>The credential\<close>

lemma decimal_401: "decimal 401 = ''401''"
  by (simp add: decimal.simps)

lemma axios_post_call:
  "ob_url c = ob_url c' \<Longrightarrow> ob_responseType c = ob_responseType c' \<Longrightarrow> axios_post c b = axios_post c' b"
  by (simp add: axios_post_def split: backend.splits)

lemma try_block_key:
  assumes "NIM_API_BASE c1 = NIM_API_BASE c2"
  shows "snd (try_block c1 now body b) = snd (try_block c2 now body b)"
proof -
  have "axios_post (nimCall c1 nim body) b = axios_post (nimCall c2 nim body) b" for nim
    using assms by (intro axios_post_call) (simp_all add: nimCall_def)
  then show ?thesis
    by (simp add: try_block_def Let_def split: option.splits sum.splits prod.splits)
qed

text \<open>The key goes into the \<open>Authorization\<close> header of the call and nowhere else.\<close>

lemma nimCall_key:
  "NIM_API_BASE c1 = NIM_API_BASE c2 \<Longrightarrow>
     nimCall c1 nim body = (nimCall c2 nim body)
       \<lparr>ob_headers := [(''Authorization'', bearer c1), (''Content-Type'', ''application/json'')]\<rparr>"
  by (simp add: nimCall_def)

lemma try_block_calls:
  assumes "NIM_API_BASE c1 = NIM_API_BASE c2"
  shows "fst (try_block c1 now body b) =
           map (\<lambda>call. call\<lparr>ob_headers := [(''Authorization'', bearer c1),
                                            (''Content-Type'', ''application/json'')]\<rparr>)
               (fst (try_block c2 now body b))"
proof -
  have "axios_post (nimCall c1 nim body) b = axios_post (nimCall c2 nim body) b" for nim
    using assms by (intro axios_post_call) (simp_all add: nimCall_def)
  then show ?thesis
    using nimCall_key [OF assms, of _ body]
    by (simp add: try_block_def Let_def split: option.splits sum.splits prod.splits)
qed

lemma catch_block_key_sent:
  "catch_block c1 body e = (l1, r1) \<Longrightarrow> catch_block c2 body e = (l2, r2) \<Longrightarrow> r1 = r2"
  by (auto simp: catch_block_def Let_def split: option.splits)

lemma key_prefix:
  assumes "map_option (take 20) (NIM_API_KEY c1) = map_option (take 20) (NIM_API_KEY c2)"
  shows "api_key_set c1 = api_key_set c2" and "api_key_shown c1 = api_key_shown c2"
proof -
  show "api_key_shown c1 = api_key_shown c2"
    using assms
    by (cases "NIM_API_KEY c1"; cases "NIM_API_KEY c2") (simp_all add: api_key_shown_def)
  show "api_key_set c1 = api_key_set c2"
  proof (cases "NIM_API_KEY c1")
    case None
    with assms show ?thesis
      by (cases "NIM_API_KEY c2") (simp_all add: api_key_set_def)
  next
    case (Some k1)
    with assms obtain k2 where k2: "NIM_API_KEY c2 = Some k2" and t: "take 20 k1 = take 20 k2"
      by (cases "NIM_API_KEY c2") simp_all
    have "(take 20 k1 = []) = (k1 = [])" and "(take 20 k2 = []) = (k2 = [])"
      by simp_all
    with t have "(k1 = []) = (k2 = [])"
      by simp
    with Some k2 show ?thesis
      by (simp add: api_key_set_def)
  qed
qed

lemma catch_block_key_logs:
  assumes "NIM_API_BASE c1 = NIM_API_BASE c2"
    and "map_option (take 20) (NIM_API_KEY c1) = map_option (take 20) (NIM_API_KEY c2)"
  shows "catch_block c1 body e = catch_block c2 body e"
  using assms(1) key_prefix [OF assms(2)]
  by (simp add: catch_block_def Let_def split: option.splits)

lemma chat_key_sent:
  assumes "NIM_API_BASE c1 = NIM_API_BASE c2"
  shows "sent (chat_completions c1 now body b) = sent (chat_completions c2 now body b)"
proof -
  obtain cs1 ls1 o1 where t1: "try_block c1 now body b = (cs1, ls1, o1)"
    by (cases "try_block c1 now body b") auto
  obtain cs2 ls2 o2 where t2: "try_block c2 now body b = (cs2, ls2, o2)"
    by (cases "try_block c2 now body b") auto
  from try_block_key [OF assms, of now body b] t1 t2 have "ls1 = ls2" "o1 = o2"
    by simp_all
  with t1 t2 show ?thesis
    by (cases o2) (auto simp: chat_completions_def split: prod.splits dest: catch_block_key_sent)
qed

lemma chat_key_logs:
  assumes "NIM_API_BASE c1 = NIM_API_BASE c2"
    and "map_option (take 20) (NIM_API_KEY c1) = map_option (take 20) (NIM_API_KEY c2)"
  shows "logs (chat_completions c1 now body b) = logs (chat_completions c2 now body b)"
proof -
  obtain cs1 ls1 o1 where t1: "try_block c1 now body b = (cs1, ls1, o1)"
    by (cases "try_block c1 now body b") auto
  obtain cs2 ls2 o2 where t2: "try_block c2 now body b = (cs2, ls2, o2)"
    by (cases "try_block c2 now body b") auto
  from try_block_key [OF assms(1), of now body b] t1 t2 have "ls1 = ls2" "o1 = o2"
    by simp_all
  with t1 t2 catch_block_key_logs [OF assms, of body] show ?thesis
    by (cases o2) (auto simp: chat_completions_def split: prod.splits)
qed

lemma chat_key_calls:
  assumes "NIM_API_BASE c1 = NIM_API_BASE c2"
  shows "calls (chat_completions c1 now body b) =
           map (\<lambda>call. call\<lparr>ob_headers := [(''Authorization'', bearer c1),
                                            (''Content-Type'', ''application/json'')]\<rparr>)
               (calls (chat_completions c2 now body b))"
proof -
  obtain cs1 ls1 o1 where t1: "try_block c1 now body b = (cs1, ls1, o1)"
    by (cases "try_block c1 now body b") auto
  obtain cs2 ls2 o2 where t2: "try_block c2 now body b = (cs2, ls2, o2)"
    by (cases "try_block c2 now body b") auto
  from try_block_calls [OF assms, of now body b] t1 t2
  have "cs1 = map (\<lambda>call. call\<lparr>ob_headers := [(''Authorization'', bearer c1),
                                            (''Content-Type'', ''application/json'')]\<rparr>) cs2"
    by simp
  with t1 t2 show ?thesis
    by (cases o1; cases o2) (auto simp: chat_completions_def split: prod.splits)
qed

lemma ex_short_key_logs:
  "logs (app ex_short_key 0 ex_post (Unreachable ''connect ECONNREFUSED'')) =
    [[Text ''Request: '', Val (JStr ''gpt-4''), Text '' -> '',
      Val (JStr ''qwen/qwen3-coder-480b-a35b-instruct'')],
     [Text ''=== ERROR DETAILS ===''],
     [Text ''Status:'', Val JUndefined],
     [Text ''Status Text:'', Val JUndefined],
     [Text ''Error Data:'', JsonText JUndefined],
     [Text ''Request URL:'', Val (JStr ''https://integrate.api.nvidia.com/v1/chat/completions'')],
     [Text ''Model Requested:'', Val (JStr ''gpt-4'')],
     [Text ''API Key Present:'', Val (JBool True)],
     [Text ''API Key (first 20 chars):'', Text ''sk-12345...''],
     [Text ''API Base:'', Text ''https://integrate.api.nvidia.com/v1''],
     [Text ''===================='']]"
  by (simp add: app_def ex_post_def health_route_def models_route_def chat_route_def
      is_get_def matches_def lower_def
      chat_completions_def try_block_def nimModel_def mapping_get_def
      MODEL_MAPPING_def js_or_def nimCall_def nimRequest_def axios_post_def Let_def
      catch_block_def error_data_text_def error_status_def error_statusText_def
      api_key_set_def api_key_shown_def ex_short_key_def ex_body_def)

text \<open>
  What the reply of the backend holds is passed on: a backend that answers 401 and
  repeats the token it was sent gets the token into the response and into the log.
\<close>

lemma ex_echo_sent:
  "sent (app ex_cfg 0 ex_post (Replied ex_echo)) =
     Some \<lparr>res_status = 401, res_headers = [],
           res_body = Json (JObj [(''error'',
             JObj [(''message'', JStr ''Unknown token nvapi-0123456789abcdefghijklmnop''),
                   (''type'', JStr ''invalid_request_error''),
                   (''code'', JNum 401)])])\<rparr> \<and>
   [Text ''Error Data:'',
    JsonText (JObj [(''detail'', JStr ''Unknown token nvapi-0123456789abcdefghijklmnop'')])]
     \<in> set (logs (app ex_cfg 0 ex_post (Replied ex_echo)))"
  by (simp add: app_def ex_post_def health_route_def models_route_def chat_route_def
      is_get_def matches_def lower_def
      chat_completions_def try_block_def nimModel_def mapping_get_def
      MODEL_MAPPING_def js_or_def nimCall_def nimRequest_def axios_post_def Let_def
      catch_block_def error_data_text_def error_reply_def status_or_500_def error_detail_def
      decimal_401 ex_cfg_def ex_body_def ex_echo_def)

text \<open>
  With a key of eight characters, the log of a failed request shows the whole key.
\<close>

theorem C9_counterexample:
  "NIM_API_KEY ex_short_key = Some ''sk-12345'' \<and>
   [Text ''API Key (first 20 chars):'', Text (''sk-12345'' @ ''...'')]
     \<in> set (logs (app ex_short_key 0 ex_post (Unreachable ''connect ECONNREFUSED'')))"
  by (simp add: ex_short_key_logs) (simp add: ex_short_key_def)

text \<open>
  C9, as amended. Take a request, a reply of the backend (or its failure to reply) and
  two configurations with the same base URL. When the two keys are both set or both
  not set (unset or empty), the response is the same under both, whatever the keys
  are. When the two keys have the same first twenty characters, the console shows the
  same lines under both, for the request and at start. The one backend call, if any,
  is the same under both but for its headers, which are the \<open>Authorization\<close> header
  with the key and the content type. So the proxy puts nothing of the key into a
  response and no more than its first twenty characters into the log.
\<close>

theorem C9_credential_use:
  assumes "NIM_API_BASE c1 = NIM_API_BASE c2"
  shows "((NIM_API_KEY c1 = None \<or> NIM_API_KEY c1 = Some []) =
            (NIM_API_KEY c2 = None \<or> NIM_API_KEY c2 = Some []) \<longrightarrow>
          sent (app c1 now req b) = sent (app c2 now req b)) \<and>
         (map_option (take 20) (NIM_API_KEY c1) = map_option (take 20) (NIM_API_KEY c2) \<longrightarrow>
            logs (app c1 now req b) = logs (app c2 now req b) \<and>
            listening c1 port = listening c2 port) \<and>
         calls (app c1 now req b) =
           map (\<lambda>call. call\<lparr>ob_headers :=
                  [(''Authorization'',
                    ''Bearer '' @ (case NIM_API_KEY c1 of None \<Rightarrow> ''undefined'' | Some k \<Rightarrow> k)),
                   (''Content-Type'', ''application/json'')]\<rparr>)
               (calls (app c2 now req b))"
proof -
  have "sent (app c1 now req b) = sent (app c2 now req b)"
    if "(NIM_API_KEY c1 = None \<or> NIM_API_KEY c1 = Some []) =
        (NIM_API_KEY c2 = None \<or> NIM_API_KEY c2 = Some [])"
  proof -
    from that have "api_key_set c1 = api_key_set c2"
      by (cases "NIM_API_KEY c1"; cases "NIM_API_KEY c2") (auto simp: api_key_set_def)
    with assms chat_key_sent [OF assms] show ?thesis
      by (auto simp: app_def quiet_def health_def split: body_result.splits)
  qed
  moreover have "logs (app c1 now req b) = logs (app c2 now req b)"
    if "map_option (take 20) (NIM_API_KEY c1) = map_option (take 20) (NIM_API_KEY c2)"
    using chat_key_logs [OF assms that]
    by (auto simp: app_def quiet_def split: body_result.splits)
  moreover have "listening c1 port = listening c2 port"
    if "map_option (take 20) (NIM_API_KEY c1) = map_option (take 20) (NIM_API_KEY c2)"
    using assms key_prefix [OF that] by (simp add: listening_def)
  moreover have "calls (app c1 now req b) =
           map (\<lambda>call. call\<lparr>ob_headers :=
                  [(''Authorization'',
                    ''Bearer '' @ (case NIM_API_KEY c1 of None \<Rightarrow> ''undefined'' | Some k \<Rightarrow> k)),
                   (''Content-Type'', ''application/json'')]\<rparr>)
               (calls (app c2 now req b))"
    using chat_key_calls [OF assms, of now _ b]
    by (auto simp: app_def quiet_def express_error_def bearer_def split: body_result.splits)
  ultimately show ?thesis by blast
qed

text \<open>Two different keys of 32 characters with the same first twenty, and a request
  that is logged with the lines of the catch block.\<close>

theorem C9_witness:
  "NIM_API_BASE ex_cfg = NIM_API_BASE ex_other_key \<and>
   NIM_API_KEY ex_cfg = Some ''nvapi-0123456789abcdefghijklmnop'' \<and>
   NIM_API_KEY ex_other_key = Some ''nvapi-0123456789abcd-another-key'' \<and>
   sent (app ex_cfg 0 ex_post (Unreachable ''connect ECONNREFUSED'')) =
     sent (app ex_other_key 0 ex_post (Unreachable ''connect ECONNREFUSED'')) \<and>
   logs (app ex_cfg 0 ex_post (Unreachable ''connect ECONNREFUSED'')) =
     logs (app ex_other_key 0 ex_post (Unreachable ''connect ECONNREFUSED'')) \<and>
   listening ex_cfg ''3000'' = listening ex_other_key ''3000'' \<and>
   map ob_url (calls (app ex_cfg 0 ex_post (Unreachable ''connect ECONNREFUSED''))) =
     map ob_url (calls (app ex_other_key 0 ex_post (Unreachable ''connect ECONNREFUSED''))) \<and>
   map ob_body (calls (app ex_cfg 0 ex_post (Unreachable ''connect ECONNREFUSED''))) =
     map ob_body (calls (app ex_other_key 0 ex_post (Unreachable ''connect ECONNREFUSED'')))"
proof -
  have a: "NIM_API_BASE ex_cfg = NIM_API_BASE ex_other_key"
    and k1: "NIM_API_KEY ex_cfg = Some ''nvapi-0123456789abcdefghijklmnop''"
    and k2: "NIM_API_KEY ex_other_key = Some ''nvapi-0123456789abcd-another-key''"
    by (simp_all add: ex_cfg_def ex_other_key_def)
  have b: "(NIM_API_KEY ex_cfg = None \<or> NIM_API_KEY ex_cfg = Some []) =
           (NIM_API_KEY ex_other_key = None \<or> NIM_API_KEY ex_other_key = Some [])"
    and c: "map_option (take 20) (NIM_API_KEY ex_cfg) =
            map_option (take 20) (NIM_API_KEY ex_other_key)"
    by (simp_all add: k1 k2)
  note t = C9_credential_use [OF a, of 0 ex_post "Unreachable ''connect ECONNREFUSED''" "''3000''"]
  from t b have s: "sent (app ex_cfg 0 ex_post (Unreachable ''connect ECONNREFUSED'')) =
     sent (app ex_other_key 0 ex_post (Unreachable ''connect ECONNREFUSED''))"
    by blast
  from t c have l: "logs (app ex_cfg 0 ex_post (Unreachable ''connect ECONNREFUSED'')) =
     logs (app ex_other_key 0 ex_post (Unreachable ''connect ECONNREFUSED''))"
    and p: "listening ex_cfg ''3000'' = listening ex_other_key ''3000''"
    by blast+
  from t have cs: "calls (app ex_cfg 0 ex_post (Unreachable ''connect ECONNREFUSED'')) =
           map (\<lambda>call. call\<lparr>ob_headers :=
                  [(''Authorization'',
                    ''Bearer '' @ (case NIM_API_KEY ex_cfg of None \<Rightarrow> ''undefined'' | Some k \<Rightarrow> k)),
                   (''Content-Type'', ''application/json'')]\<rparr>)
               (calls (app ex_other_key 0 ex_post (Unreachable ''connect ECONNREFUSED'')))"
    by blast
  have u: "map ob_url (calls (app ex_cfg 0 ex_post (Unreachable ''connect ECONNREFUSED''))) =
     map ob_url (calls (app ex_other_key 0 ex_post (Unreachable ''connect ECONNREFUSED'')))"
    by (subst cs) (simp add: comp_def)
  have v: "map ob_body (calls (app ex_cfg 0 ex_post (Unreachable ''connect ECONNREFUSED''))) =
     map ob_body (calls (app ex_other_key 0 ex_post (Unreachable ''connect ECONNREFUSED'')))"
    by (subst cs) (simp add: comp_def)
  from a k1 k2 s l p u v show ?thesis
    by blast
qed

end
